theory Spec2Isabelle
  imports Main "HOL-Library.Stream" "HOL-Library.Char_ord" "HOL-Library.List_Lexorder" "HOL-Library.Multiset"
begin

section \<open>Data model (internal/models)\<close>

text \<open>
  Go strings are \<open>string\<close>; \<open>time.Time\<close> is a number of nanoseconds, the resolution
  of \<open>time.Now()\<close>; a nullable \<open>*time.Time\<close> is an \<open>option\<close>. Field names follow the Go
  structs; where two structs share a field name the second one carries the struct's name
  as a prefix.
\<close>

type_synonym time = nat

record User =
  UserID :: string
  Username :: string
  TeamName :: string
  IsActive :: bool

record TeamMember =
  member_UserID :: string
  member_Username :: string
  member_IsActive :: bool

record Team =
  team_TeamName :: string
  team_Members :: "TeamMember list"

record PullRequest =
  PullRequestID :: string
  PullRequestName :: string
  AuthorID :: string
  Status :: string
  AssignedReviewers :: "string list"
  CreatedAt :: time
  MergedAt :: "time option"

record PullRequestShort =
  short_PullRequestID :: string
  short_PullRequestName :: string
  short_AuthorID :: string
  short_Status :: string

record ReassignedPR =
  PRID :: string
  OldReviewers :: "string list"
  NewReviewers :: "string list"

record BulkDeactivateResponse =
  DeactivatedUsers :: "string list"
  ReassignedPRs :: "ReassignedPR list"
  TotalProcessed :: nat
  ReassignedCount :: nat

section \<open>Errors (internal/service/service.go)\<close>

text \<open>
  A \<open>*ServiceError\<close> carries a code and a message; every other Go error (\<open>fmt.Errorf\<close>,
  a driver error) is a \<open>PlainError\<close> with its text. \<open>wrap\<close> is \<open>fmt.Errorf("...: %w", err)\<close>.
\<close>

datatype error = ServiceError string string | PlainError string

fun Error_text :: "error \<Rightarrow> string" where
  "Error_text (ServiceError code message) = code @ '': '' @ message"
| "Error_text (PlainError m) = m"

definition NewServiceError :: "string \<Rightarrow> string \<Rightarrow> error" where
  "NewServiceError code message = ServiceError code message"

definition wrap :: "string \<Rightarrow> error \<Rightarrow> error" where
  "wrap prefix e = PlainError (prefix @ Error_text e)"

section \<open>The relational store (migrations/001_init_schema.up.sql)\<close>

text \<open>
  Four tables. A row of \<open>users\<close> is a \<open>User\<close>; a row of \<open>pr_reviewers\<close> is the pair
  (pull_request_id, reviewer_id). \<open>assigned_at\<close> defaults to the insertion time, so the rows
  of \<open>pr_reviewers\<close> are kept in insertion order and \<open>ORDER BY assigned_at\<close> reads them in
  that order.
\<close>

record pull_requests_row =
  pull_request_id :: string
  pull_request_name :: string
  author_id :: string
  status :: string
  created_at :: time
  merged_at :: "time option"

record store =
  teams :: "string list"
  users :: "User list"
  pull_requests :: "pull_requests_row list"
  pr_reviewers :: "(string \<times> string) list"

text \<open>
  A text of PostgreSQL cannot hold the character NUL: the server rejects a statement with
  such a parameter. A \<open>TIMESTAMP WITH TIME ZONE\<close> column keeps microseconds: the driver
  sends the nanoseconds of a \<open>time.Time\<close> and the server rounds them to the nearest
  microsecond (a tie goes up here).
\<close>

definition pg_text_ok :: "string \<Rightarrow> bool" where
  "pg_text_ok s = (CHR 0x00 \<notin> set s)"

definition timestamptz :: "time \<Rightarrow> time" where
  "timestamptz t = ((t + 500) div 1000) * 1000"

text \<open>
  The constraints the schema declares: primary keys, foreign keys, the CHECK on status and
  the column widths; and no stored text holds NUL. Every store the database can hold
  satisfies them.
\<close>

definition schema_ok :: "store \<Rightarrow> bool" where
  "schema_ok db =
     (distinct (teams db) \<and>
      distinct (map UserID (users db)) \<and>
      distinct (map pull_request_id (pull_requests db)) \<and>
      distinct (pr_reviewers db) \<and>
      list_all (\<lambda>t. length t \<le> 100 \<and> pg_text_ok t) (teams db) \<and>
      list_all (\<lambda>u. TeamName u \<in> set (teams db) \<and>
                     length (UserID u) \<le> 100 \<and> length (Username u) \<le> 100 \<and>
                     pg_text_ok (UserID u) \<and> pg_text_ok (Username u)) (users db) \<and>
      list_all (\<lambda>p. author_id p \<in> set (map UserID (users db)) \<and>
                     (status p = ''OPEN'' \<or> status p = ''MERGED'') \<and>
                     length (pull_request_id p) \<le> 100 \<and>
                     length (pull_request_name p) \<le> 200 \<and>
                     pg_text_ok (pull_request_id p) \<and>
                     pg_text_ok (pull_request_name p)) (pull_requests db) \<and>
      list_all (\<lambda>r. fst r \<in> set (map pull_request_id (pull_requests db)) \<and>
                     snd r \<in> set (map UserID (users db))) (pr_reviewers db))"

text \<open>The text of a constraint violation comes from the driver; the model fixes one.\<close>

definition driver_error :: error where
  "driver_error = PlainError ''pq: constraint violation''"

section \<open>The repositories (internal/repository/postgres)\<close>

subsection \<open>PRRepository\<close>

definition getPRReviewers :: "store \<Rightarrow> string \<Rightarrow> string list" where
  "getPRReviewers db prID = map snd (filter (\<lambda>r. fst r = prID) (pr_reviewers db))"

text \<open>
  INSERT INTO pull_requests: the texts must be free of NUL; the primary key, the foreign
  key on the author, the CHECK on the status and the column widths (VARCHAR(100),
  VARCHAR(200), VARCHAR(20)) are enforced; \<open>created_at\<close> is stored at the column's
  resolution; \<open>merged_at\<close> is not inserted and stays NULL.
\<close>

definition PRRepository_CreatePR :: "store \<Rightarrow> PullRequest \<Rightarrow> error + store" where
  "PRRepository_CreatePR db pr =
     (if \<not> pg_text_ok (PullRequestID pr)
         \<or> \<not> pg_text_ok (PullRequestName pr)
         \<or> \<not> pg_text_ok (AuthorID pr)
         \<or> \<not> pg_text_ok (Status pr)
         \<or> PullRequestID pr \<in> set (map pull_request_id (pull_requests db))
         \<or> AuthorID pr \<notin> set (map UserID (users db))
         \<or> \<not> (Status pr = ''OPEN'' \<or> Status pr = ''MERGED'')
         \<or> length (PullRequestID pr) > 100
         \<or> length (PullRequestName pr) > 200
         \<or> length (AuthorID pr) > 100
         \<or> length (Status pr) > 20
      then Inl (wrap ''failed to create pull request: '' driver_error)
      else Inr (db\<lparr>pull_requests := pull_requests db @
             [\<lparr>pull_request_id = PullRequestID pr,
               pull_request_name = PullRequestName pr,
               author_id = AuthorID pr,
               status = Status pr,
               created_at = timestamptz (CreatedAt pr),
               merged_at = None\<rparr>]\<rparr>))"

definition PRRepository_GetPR :: "store \<Rightarrow> string \<Rightarrow> error + PullRequest" where
  "PRRepository_GetPR db prID =
     (case find (\<lambda>p. pull_request_id p = prID) (pull_requests db) of
        None \<Rightarrow> Inl (PlainError ''pull request not found'')
      | Some p \<Rightarrow>
          Inr \<lparr>PullRequestID = pull_request_id p,
               PullRequestName = pull_request_name p,
               AuthorID = author_id p,
               Status = status p,
               AssignedReviewers = getPRReviewers db prID,
               CreatedAt = created_at p,
               MergedAt = merged_at p\<rparr>)"

text \<open>
  UPDATE pull_requests SET name, author, status, merged_at WHERE id: the texts must be
  free of NUL; no matching row is "pull request not found"; a matching row is checked
  against the constraints, and \<open>merged_at\<close> is stored at the column's resolution.
\<close>

definition PRRepository_UpdatePR :: "store \<Rightarrow> PullRequest \<Rightarrow> error + store" where
  "PRRepository_UpdatePR db pr =
     (if \<not> pg_text_ok (PullRequestID pr)
         \<or> \<not> pg_text_ok (PullRequestName pr)
         \<or> \<not> pg_text_ok (AuthorID pr)
         \<or> \<not> pg_text_ok (Status pr)
      then Inl (wrap ''failed to update pull request: '' driver_error)
      else if PullRequestID pr \<notin> set (map pull_request_id (pull_requests db))
      then Inl (PlainError ''pull request not found'')
      else if AuthorID pr \<notin> set (map UserID (users db))
         \<or> \<not> (Status pr = ''OPEN'' \<or> Status pr = ''MERGED'')
         \<or> length (PullRequestName pr) > 200
         \<or> length (AuthorID pr) > 100
         \<or> length (Status pr) > 20
      then Inl (wrap ''failed to update pull request: '' driver_error)
      else Inr (db\<lparr>pull_requests :=
             map (\<lambda>p. if pull_request_id p = PullRequestID pr
                       then p\<lparr>pull_request_name := PullRequestName pr,
                              author_id := AuthorID pr,
                              status := Status pr,
                              merged_at := map_option timestamptz (MergedAt pr)\<rparr>
                       else p) (pull_requests db)\<rparr>))"

text \<open>
  SELECT EXISTS(SELECT 1 FROM pull_requests WHERE pull_request_id = $1): the query fails
  on an id that holds NUL.
\<close>

definition PRRepository_PRExists :: "store \<Rightarrow> string \<Rightarrow> error + bool" where
  "PRRepository_PRExists db prID =
     (if \<not> pg_text_ok prID
      then Inl (wrap ''failed to check PR existence: '' driver_error)
      else Inr (prID \<in> set (map pull_request_id (pull_requests db))))"

text \<open>
  The join of pull_requests with pr_reviewers on the reviewer, newest PR first
  (ORDER BY created_at DESC; rows created at the same tick come in the reverse of the
  table's order).
\<close>

definition PRRepository_GetPRsByReviewer :: "store \<Rightarrow> string \<Rightarrow> error + PullRequestShort list" where
  "PRRepository_GetPRsByReviewer db userID =
     Inr (map (\<lambda>p. \<lparr>short_PullRequestID = pull_request_id p,
                     short_PullRequestName = pull_request_name p,
                     short_AuthorID = author_id p,
                     short_Status = status p\<rparr>)
            (rev (sort_key created_at
               (filter (\<lambda>p. (pull_request_id p, userID) \<in> set (pr_reviewers db))
                  (pull_requests db)))))"

subsection \<open>ReviewRepository\<close>

text \<open>
  One INSERT INTO pr_reviewers: the composite primary key and both foreign keys are
  enforced. \<open>None\<close> is the statement's failure.
\<close>

definition insert_reviewer :: "store \<Rightarrow> string \<Rightarrow> string \<Rightarrow> store option" where
  "insert_reviewer db prID reviewerID =
     (if (prID, reviewerID) \<in> set (pr_reviewers db)
         \<or> prID \<notin> set (map pull_request_id (pull_requests db))
         \<or> reviewerID \<notin> set (map UserID (users db))
      then None
      else Some (db\<lparr>pr_reviewers := pr_reviewers db @ [(prID, reviewerID)]\<rparr>))"

fun insert_reviewers :: "store \<Rightarrow> string \<Rightarrow> string list \<Rightarrow> store option" where
  "insert_reviewers db prID [] = Some db"
| "insert_reviewers db prID (reviewerID # rest) =
     (case insert_reviewer db prID reviewerID of
        None \<Rightarrow> None
      | Some db' \<Rightarrow> insert_reviewers db' prID rest)"

text \<open>The inserts run in one transaction: a failed insert rolls all of them back.\<close>

definition ReviewRepository_AssignReviewers :: "store \<Rightarrow> string \<Rightarrow> string list \<Rightarrow> error + store" where
  "ReviewRepository_AssignReviewers db prID reviewerIDs =
     (case insert_reviewers db prID reviewerIDs of
        None \<Rightarrow> Inl (wrap ''failed to assign reviewer: '' driver_error)
      | Some db' \<Rightarrow> Inr db')"

definition ReviewRepository_GetAssignedReviewers :: "store \<Rightarrow> string \<Rightarrow> error + string list" where
  "ReviewRepository_GetAssignedReviewers db prID =
     Inr (map snd (filter (\<lambda>r. fst r = prID) (pr_reviewers db)))"

text \<open>
  DELETE the old row (no row deleted is an error), INSERT the new one, in one transaction.
\<close>

definition ReviewRepository_ReplaceReviewer ::
  "store \<Rightarrow> string \<Rightarrow> string \<Rightarrow> string \<Rightarrow> error + store" where
  "ReviewRepository_ReplaceReviewer db prID oldReviewerID newReviewerID =
     (if (prID, oldReviewerID) \<notin> set (pr_reviewers db)
      then Inl (PlainError ''reviewer not assigned to this PR'')
      else
        (case insert_reviewer
                (db\<lparr>pr_reviewers := filter (\<lambda>r. r \<noteq> (prID, oldReviewerID)) (pr_reviewers db)\<rparr>)
                prID newReviewerID of
           None \<Rightarrow> Inl (wrap ''failed to assign new reviewer: '' driver_error)
         | Some db' \<Rightarrow> Inr db'))"

definition ReviewRepository_IsReviewerAssigned :: "store \<Rightarrow> string \<Rightarrow> string \<Rightarrow> error + bool" where
  "ReviewRepository_IsReviewerAssigned db prID userID = Inr ((prID, userID) \<in> set (pr_reviewers db))"

subsection \<open>UserRepository\<close>

definition UserRepository_GetUser :: "store \<Rightarrow> string \<Rightarrow> error + User" where
  "UserRepository_GetUser db userID =
     (case find (\<lambda>u. UserID u = userID) (users db) of
        None \<Rightarrow> Inl (PlainError ''user not found'')
      | Some u \<Rightarrow> Inr u)"

text \<open>
  UPDATE users SET username, team_name, is_active WHERE user_id: no matching row is
  "user not found"; the new team must exist (foreign key) and the texts must fit.
\<close>

definition UserRepository_UpdateUser :: "store \<Rightarrow> User \<Rightarrow> error + store" where
  "UserRepository_UpdateUser db user =
     (if UserID user \<notin> set (map UserID (users db))
      then Inl (PlainError ''user not found'')
      else if TeamName user \<notin> set (teams db)
         \<or> length (Username user) > 100
         \<or> length (TeamName user) > 100
      then Inl (wrap ''failed to update user: '' driver_error)
      else Inr (db\<lparr>users :=
             map (\<lambda>u. if UserID u = UserID user
                       then u\<lparr>Username := Username user,
                              TeamName := TeamName user,
                              IsActive := IsActive user\<rparr>
                       else u) (users db)\<rparr>))"

text \<open>WHERE team_name = $1 AND is_active = true ORDER BY user_id.\<close>

definition UserRepository_GetActiveUsersByTeam :: "store \<Rightarrow> string \<Rightarrow> error + User list" where
  "UserRepository_GetActiveUsersByTeam db teamName =
     Inr (sort_key UserID (filter (\<lambda>u. TeamName u = teamName \<and> IsActive u) (users db)))"

subsection \<open>TeamRepository\<close>

text \<open>
  GetTeam selects the users of the team (ORDER BY user_id) and never reads the teams
  table; no row is not an error. The query fails on a team name that holds NUL.
\<close>

definition TeamRepository_GetTeam :: "store \<Rightarrow> string \<Rightarrow> error + Team" where
  "TeamRepository_GetTeam db teamName =
     (if \<not> pg_text_ok teamName
      then Inl (wrap ''failed to query team members: '' driver_error)
      else
        Inr \<lparr>team_TeamName = teamName,
             team_Members =
               map (\<lambda>u. \<lparr>member_UserID = UserID u,
                          member_Username = Username u,
                          member_IsActive = IsActive u\<rparr>)
                 (sort_key UserID (filter (\<lambda>u. TeamName u = teamName) (users db)))\<rparr>)"

definition TeamRepository_TeamExists :: "store \<Rightarrow> string \<Rightarrow> error + bool" where
  "TeamRepository_TeamExists db teamName =
     (if \<not> pg_text_ok teamName
      then Inl (wrap ''failed to check team existence: '' driver_error)
      else Inr (teamName \<in> set (teams db)))"

section \<open>The repository interfaces (internal/repository)\<close>

text \<open>
  The services are written against interfaces. A read returns a value or an error; a
  write returns the new store or an error, and an error leaves the store as it was (one
  statement, or one transaction rolled back). \<open>'db\<close> is the store behind the interface.
\<close>

record 'db Repos =
  teamRepo_GetTeam :: "'db \<Rightarrow> string \<Rightarrow> error + Team"
  teamRepo_TeamExists :: "'db \<Rightarrow> string \<Rightarrow> error + bool"
  userRepo_GetUser :: "'db \<Rightarrow> string \<Rightarrow> error + User"
  userRepo_UpdateUser :: "'db \<Rightarrow> User \<Rightarrow> error + 'db"
  userRepo_GetActiveUsersByTeam :: "'db \<Rightarrow> string \<Rightarrow> error + User list"
  prRepo_CreatePR :: "'db \<Rightarrow> PullRequest \<Rightarrow> error + 'db"
  prRepo_GetPR :: "'db \<Rightarrow> string \<Rightarrow> error + PullRequest"
  prRepo_UpdatePR :: "'db \<Rightarrow> PullRequest \<Rightarrow> error + 'db"
  prRepo_PRExists :: "'db \<Rightarrow> string \<Rightarrow> error + bool"
  prRepo_GetPRsByReviewer :: "'db \<Rightarrow> string \<Rightarrow> error + PullRequestShort list"
  reviewRepo_AssignReviewers :: "'db \<Rightarrow> string \<Rightarrow> string list \<Rightarrow> error + 'db"
  reviewRepo_GetAssignedReviewers :: "'db \<Rightarrow> string \<Rightarrow> error + string list"
  reviewRepo_ReplaceReviewer :: "'db \<Rightarrow> string \<Rightarrow> string \<Rightarrow> string \<Rightarrow> error + 'db"
  reviewRepo_IsReviewerAssigned :: "'db \<Rightarrow> string \<Rightarrow> string \<Rightarrow> error + bool"

text \<open>The PostgreSQL repositories, as the server wires them.\<close>

definition postgres :: "store Repos" where
  "postgres =
     \<lparr>teamRepo_GetTeam = TeamRepository_GetTeam,
      teamRepo_TeamExists = TeamRepository_TeamExists,
      userRepo_GetUser = UserRepository_GetUser,
      userRepo_UpdateUser = UserRepository_UpdateUser,
      userRepo_GetActiveUsersByTeam = UserRepository_GetActiveUsersByTeam,
      prRepo_CreatePR = PRRepository_CreatePR,
      prRepo_GetPR = PRRepository_GetPR,
      prRepo_UpdatePR = PRRepository_UpdatePR,
      prRepo_PRExists = PRRepository_PRExists,
      prRepo_GetPRsByReviewer = PRRepository_GetPRsByReviewer,
      reviewRepo_AssignReviewers = ReviewRepository_AssignReviewers,
      reviewRepo_GetAssignedReviewers = ReviewRepository_GetAssignedReviewers,
      reviewRepo_ReplaceReviewer = ReviewRepository_ReplaceReviewer,
      reviewRepo_IsReviewerAssigned = ReviewRepository_IsReviewerAssigned\<rparr>"

section \<open>The random source (math/rand)\<close>

text \<open>
  The process-wide generator is a stream of raw draws, threaded through every function
  that consumes it. \<open>rand.Intn(n)\<close> reduces one draw into \<open>[0, n)\<close>; the code calls it
  with \<open>n > 0\<close> only. \<open>rand.Shuffle(n, swap)\<close> is the library's Fisher-Yates loop:
  for \<open>i = n - 1\<close> down to 1, \<open>j = Intn(i + 1)\<close>, swap \<open>i\<close> and \<open>j\<close>.
\<close>

type_synonym rng = "nat stream"

definition rand_Intn :: "rng \<Rightarrow> nat \<Rightarrow> nat \<times> rng" where
  "rand_Intn g n = (shd g mod n, stl g)"

definition swap :: "'a list \<Rightarrow> nat \<Rightarrow> nat \<Rightarrow> 'a list" where
  "swap xs i j = xs[i := xs ! j, j := xs ! i]"

fun shuffle_from :: "rng \<Rightarrow> nat \<Rightarrow> 'a list \<Rightarrow> 'a list \<times> rng" where
  "shuffle_from g 0 xs = (xs, g)"
| "shuffle_from g (Suc i) xs =
     (case rand_Intn g (Suc i + 1) of
        (j, g') \<Rightarrow> shuffle_from g' i (swap xs (Suc i) j))"

definition rand_Shuffle :: "rng \<Rightarrow> 'a list \<Rightarrow> 'a list \<times> rng" where
  "rand_Shuffle g xs = shuffle_from g (length xs - 1) xs"

section \<open>PRService\<close>

definition min_go :: "nat \<Rightarrow> nat \<Rightarrow> nat" where
  "min_go a b = (if a < b then a else b)"

text \<open>
  assignReviewers: the candidates are the active users of the team without the author;
  none is an empty result and no error; otherwise a copy of the candidates is shuffled
  and its elements at the indices below \<open>min(2, len)\<close> are returned.
\<close>

definition PRService_assignReviewers ::
  "'db Repos \<Rightarrow> rng \<Rightarrow> 'db \<Rightarrow> string \<Rightarrow> string \<Rightarrow> (error + string list) \<times> rng" where
  "PRService_assignReviewers R g db authorID teamName =
     (case userRepo_GetActiveUsersByTeam R db teamName of
        Inl err \<Rightarrow> (Inl (wrap ''failed to get active users: '' err), g)
      | Inr activeUsers \<Rightarrow>
          (let candidateUserIDs = map UserID (filter (\<lambda>user. UserID user \<noteq> authorID) activeUsers)
           in if length candidateUserIDs = 0 then (Inr [], g)
              else
                (let reviewerCount = min_go 2 (length candidateUserIDs) in
                 case rand_Shuffle g candidateUserIDs of
                   (shuffledCandidates, g') \<Rightarrow>
                     (Inr (map (\<lambda>i. shuffledCandidates ! i) [0..<reviewerCount]), g'))))"

text \<open>
  CreatePR. \<open>now\<close> is the reading of \<open>time.Now()\<close>. An error of the reviewer-row
  write is logged and dropped: the store is then the one the PR insert left. Log lines
  are not part of the model.
\<close>

definition PRService_CreatePR ::
  "'db Repos \<Rightarrow> rng \<Rightarrow> 'db \<Rightarrow> string \<Rightarrow> string \<Rightarrow> string \<Rightarrow> time
     \<Rightarrow> (error + PullRequest) \<times> 'db \<times> rng" where
  "PRService_CreatePR R g db prID prName authorID now =
     (case prRepo_PRExists R db prID of
        Inl err \<Rightarrow> (Inl (wrap ''failed to check PR existence: '' err), db, g)
      | Inr exists \<Rightarrow>
          if exists then (Inl (NewServiceError ''PR_EXISTS'' ''PR id already exists''), db, g)
          else
            (case userRepo_GetUser R db authorID of
               Inl err \<Rightarrow> (Inl (NewServiceError ''NOT_FOUND'' ''author not found''), db, g)
             | Inr author \<Rightarrow>
                 if \<not> IsActive author
                 then (Inl (NewServiceError ''INVALID_REQUEST'' ''author is not active''), db, g)
                 else
                   (case PRService_assignReviewers R g db authorID (TeamName author) of
                      (Inl err, g') \<Rightarrow> (Inl (wrap ''failed to assign reviewers: '' err), db, g')
                    | (Inr reviewerIDs, g') \<Rightarrow>
                        (let pr = \<lparr>PullRequestID = prID,
                                   PullRequestName = prName,
                                   AuthorID = authorID,
                                   Status = ''OPEN'',
                                   AssignedReviewers = reviewerIDs,
                                   CreatedAt = now,
                                   MergedAt = None\<rparr>
                         in case prRepo_CreatePR R db pr of
                              Inl err \<Rightarrow> (Inl (wrap ''failed to create PR: '' err), db, g')
                            | Inr db1 \<Rightarrow>
                                (let db2 =
                                   (if length reviewerIDs > 0
                                    then (case reviewRepo_AssignReviewers R db1 prID reviewerIDs of
                                            Inl err \<Rightarrow> db1
                                          | Inr db' \<Rightarrow> db')
                                    else db1)
                                 in (Inr pr, db2, g'))))))"

definition PRService_MergePR :: "'db Repos \<Rightarrow> 'db \<Rightarrow> string \<Rightarrow> time \<Rightarrow> (error + PullRequest) \<times> 'db" where
  "PRService_MergePR R db prID now =
     (case prRepo_GetPR R db prID of
        Inl err \<Rightarrow> (Inl (NewServiceError ''NOT_FOUND'' ''PR not found''), db)
      | Inr pr \<Rightarrow>
          if Status pr = ''MERGED'' then (Inr pr, db)
          else if Status pr \<noteq> ''OPEN''
          then (Inl (NewServiceError ''INVALID_REQUEST'' ''cannot merge PR that is not open''), db)
          else
            (let pr' = pr\<lparr>Status := ''MERGED'', MergedAt := Some now\<rparr>
             in case prRepo_UpdatePR R db pr' of
                  Inl err \<Rightarrow> (Inl (wrap ''failed to merge PR: '' err), db)
                | Inr db' \<Rightarrow> (Inr pr', db')))"

definition PRService_isReviewerAssignedToPR :: "'db Repos \<Rightarrow> 'db \<Rightarrow> string \<Rightarrow> string \<Rightarrow> bool" where
  "PRService_isReviewerAssignedToPR R db prID userID =
     (case reviewRepo_IsReviewerAssigned R db prID userID of
        Inl err \<Rightarrow> False
      | Inr assigned \<Rightarrow> assigned)"

text \<open>
  The candidate list that selectReplacementReviewer builds in its loop: the active users
  that are not the author, not the old reviewer and not assigned to the PR.
\<close>

definition PRService_replacementCandidates ::
  "'db Repos \<Rightarrow> 'db \<Rightarrow> User list \<Rightarrow> string \<Rightarrow> string \<Rightarrow> string \<Rightarrow> string list" where
  "PRService_replacementCandidates R db activeUsers prID authorID oldReviewerID =
     map UserID
       (filter (\<lambda>user. UserID user \<noteq> authorID \<and>
                       UserID user \<noteq> oldReviewerID \<and>
                       \<not> PRService_isReviewerAssignedToPR R db prID (UserID user)) activeUsers)"

definition PRService_selectReplacementReviewer ::
  "'db Repos \<Rightarrow> rng \<Rightarrow> 'db \<Rightarrow> string \<Rightarrow> string \<Rightarrow> string \<Rightarrow> string \<Rightarrow> (error + string) \<times> rng" where
  "PRService_selectReplacementReviewer R g db teamName prID authorID oldReviewerID =
     (case userRepo_GetActiveUsersByTeam R db teamName of
        Inl err \<Rightarrow> (Inl (wrap ''failed to get active users: '' err), g)
      | Inr activeUsers \<Rightarrow>
          (let candidateUserIDs = PRService_replacementCandidates R db activeUsers prID authorID oldReviewerID
           in if length candidateUserIDs = 0
              then (Inl (NewServiceError ''NO_CANDIDATE'' ''no active replacement candidate in team''), g)
              else
                (case rand_Intn g (length candidateUserIDs) of
                   (k, g') \<Rightarrow> (Inr (candidateUserIDs ! k), g'))))"

definition PRService_replaceInSlice :: "string list \<Rightarrow> string \<Rightarrow> string \<Rightarrow> string list" where
  "PRService_replaceInSlice slice old new = map (\<lambda>item. if item = old then new else item) slice"

definition PRService_ReassignReviewer ::
  "'db Repos \<Rightarrow> rng \<Rightarrow> 'db \<Rightarrow> string \<Rightarrow> string
     \<Rightarrow> (error + PullRequest \<times> string) \<times> 'db \<times> rng" where
  "PRService_ReassignReviewer R g db prID oldReviewerID =
     (case prRepo_GetPR R db prID of
        Inl err \<Rightarrow> (Inl (NewServiceError ''NOT_FOUND'' ''PR not found''), db, g)
      | Inr pr \<Rightarrow>
          if Status pr = ''MERGED''
          then (Inl (NewServiceError ''PR_MERGED'' ''cannot reassign on merged PR''), db, g)
          else
            (case reviewRepo_IsReviewerAssigned R db prID oldReviewerID of
               Inl err \<Rightarrow> (Inl (wrap ''failed to check reviewer assignment: '' err), db, g)
             | Inr isAssigned \<Rightarrow>
                 if \<not> isAssigned
                 then (Inl (NewServiceError ''NOT_ASSIGNED'' ''reviewer is not assigned to this PR''), db, g)
                 else
                   (case userRepo_GetUser R db oldReviewerID of
                      Inl err \<Rightarrow> (Inl (NewServiceError ''NOT_FOUND'' ''old reviewer not found''), db, g)
                    | Inr oldReviewer \<Rightarrow>
                        if \<not> IsActive oldReviewer
                        then (Inl (NewServiceError ''INVALID_REQUEST'' ''old reviewer is not active''), db, g)
                        else
                          (case PRService_selectReplacementReviewer R g db (TeamName oldReviewer) prID
                                  (AuthorID pr) oldReviewerID of
                             (Inl err, g') \<Rightarrow> (Inl err, db, g')
                           | (Inr newReviewerID, g') \<Rightarrow>
                               (case reviewRepo_ReplaceReviewer R db prID oldReviewerID newReviewerID of
                                  Inl err \<Rightarrow> (Inl (wrap ''failed to replace reviewer: '' err), db, g')
                                | Inr db' \<Rightarrow>
                                    (Inr (pr\<lparr>AssignedReviewers :=
                                               PRService_replaceInSlice (AssignedReviewers pr)
                                                 oldReviewerID newReviewerID\<rparr>,
                                          newReviewerID), db', g'))))))"

section \<open>UserService\<close>

fun contains :: "string list \<Rightarrow> string \<Rightarrow> bool" where
  "contains [] item = False"
| "contains (s # slice) item = (if s = item then True else contains slice item)"

text \<open>The loop that copies the reviewers and replaces the first occurrence, then breaks.\<close>

fun replaceFirst :: "string list \<Rightarrow> string \<Rightarrow> string \<Rightarrow> string list" where
  "replaceFirst [] old new = []"
| "replaceFirst (reviewer # rest) old new =
     (if reviewer = old then new # rest else reviewer # replaceFirst rest old new)"

definition UserService_GetUserReviewPRs ::
  "'db Repos \<Rightarrow> 'db \<Rightarrow> string \<Rightarrow> error + PullRequestShort list" where
  "UserService_GetUserReviewPRs R db userID =
     (case userRepo_GetUser R db userID of
        Inl err \<Rightarrow> Inl (NewServiceError ''NOT_FOUND'' ''user not found'')
      | Inr user \<Rightarrow>
          if \<not> IsActive user then Inr []
          else
            (case prRepo_GetPRsByReviewer R db userID of
               Inl err \<Rightarrow> Inl (wrap ''failed to get user PRs: '' err)
             | Inr prs \<Rightarrow> Inr prs))"

definition UserService_getOpenPRsWithReviewer ::
  "'db Repos \<Rightarrow> 'db \<Rightarrow> string \<Rightarrow> error + PullRequest list" where
  "UserService_getOpenPRsWithReviewer R db userID =
     (case prRepo_GetPRsByReviewer R db userID of
        Inl err \<Rightarrow> Inl err
      | Inr prShorts \<Rightarrow>
          Inr (List.map_filter
                 (\<lambda>prShort.
                    if short_Status prShort = ''OPEN''
                    then (case prRepo_GetPR R db (short_PullRequestID prShort) of
                            Inl err \<Rightarrow> None
                          | Inr fullPR \<Rightarrow> Some fullPR)
                    else None) prShorts))"

text \<open>
  The candidate list that reassignReviewerInPR builds in its loop, from the reviewers it
  read at its start.
\<close>

definition cascadeCandidates :: "User list \<Rightarrow> string list \<Rightarrow> string \<Rightarrow> string \<Rightarrow> string list" where
  "cascadeCandidates availableUsers currentReviewers authorID oldReviewerID =
     map UserID
       (filter (\<lambda>user. UserID user \<noteq> authorID \<and>
                       UserID user \<noteq> oldReviewerID \<and>
                       \<not> contains currentReviewers (UserID user)) availableUsers)"

definition UserService_reassignReviewerInPR ::
  "'db Repos \<Rightarrow> 'db \<Rightarrow> string \<Rightarrow> string \<Rightarrow> string \<Rightarrow> (error + ReassignedPR) \<times> 'db" where
  "UserService_reassignReviewerInPR R db prID oldReviewerID teamName =
     (case reviewRepo_GetAssignedReviewers R db prID of
        Inl err \<Rightarrow> (Inl (wrap ''failed to get assigned reviewers: '' err), db)
      | Inr currentReviewers \<Rightarrow>
          if \<not> contains currentReviewers oldReviewerID
          then (Inl (PlainError (''reviewer '' @ oldReviewerID @ '' not assigned to PR '' @ prID)), db)
          else
            (case prRepo_GetPR R db prID of
               Inl err \<Rightarrow> (Inl (wrap ''failed to get PR: '' err), db)
             | Inr pr \<Rightarrow>
                 (case userRepo_GetActiveUsersByTeam R db teamName of
                    Inl err \<Rightarrow> (Inl (wrap ''failed to get active users: '' err), db)
                  | Inr availableUsers \<Rightarrow>
                      (let candidates = cascadeCandidates availableUsers currentReviewers
                                          (AuthorID pr) oldReviewerID
                       in if length candidates = 0
                          then (Inl (PlainError (''no available candidates for replacement in team ''
                                                  @ teamName)), db)
                          else
                            (let newReviewerID = candidates ! 0
                             in case reviewRepo_ReplaceReviewer R db prID oldReviewerID newReviewerID of
                                  Inl err \<Rightarrow> (Inl (wrap ''failed to replace reviewer: '' err), db)
                                | Inr db' \<Rightarrow>
                                    (Inr \<lparr>PRID = prID,
                                          OldReviewers = currentReviewers,
                                          NewReviewers = replaceFirst currentReviewers
                                                           oldReviewerID newReviewerID\<rparr>, db'))))))"

text \<open>
  BulkDeactivateUsers, first loop: an id that resolves to no user, or to a user of another
  team, is skipped; a failed update aborts the call (the updates made so far stay).
\<close>

fun deactivateUsers ::
  "'db Repos \<Rightarrow> string \<Rightarrow> 'db \<Rightarrow> string list \<Rightarrow> string list \<Rightarrow> (error + string list) \<times> 'db" where
  "deactivateUsers R teamName db [] deactivatedUsers = (Inr deactivatedUsers, db)"
| "deactivateUsers R teamName db (userID # rest) deactivatedUsers =
     (case userRepo_GetUser R db userID of
        Inl err \<Rightarrow> deactivateUsers R teamName db rest deactivatedUsers
      | Inr user \<Rightarrow>
          if TeamName user \<noteq> teamName then deactivateUsers R teamName db rest deactivatedUsers
          else
            (case userRepo_UpdateUser R db (user\<lparr>IsActive := False\<rparr>) of
               Inl err \<Rightarrow> (Inl (NewServiceError ''INTERNAL_ERROR'' (Error_text err)), db)
             | Inr db' \<Rightarrow> deactivateUsers R teamName db' rest (deactivatedUsers @ [userID])))"

text \<open>Second loop, inner part: the open PRs of one deactivated user.\<close>

fun reassignOpenPRs ::
  "'db Repos \<Rightarrow> string \<Rightarrow> string \<Rightarrow> 'db \<Rightarrow> PullRequest list \<Rightarrow> ReassignedPR list
     \<Rightarrow> ReassignedPR list \<times> 'db" where
  "reassignOpenPRs R teamName userID db [] reassignedPRs = (reassignedPRs, db)"
| "reassignOpenPRs R teamName userID db (pr # rest) reassignedPRs =
     (case UserService_reassignReviewerInPR R db (PullRequestID pr) userID teamName of
        (Inl err, db') \<Rightarrow> reassignOpenPRs R teamName userID db' rest reassignedPRs
      | (Inr reassignedPR, db') \<Rightarrow>
          reassignOpenPRs R teamName userID db' rest (reassignedPRs @ [reassignedPR]))"

text \<open>Second loop, outer part: every deactivated user in turn.\<close>

fun cascadeReassign ::
  "'db Repos \<Rightarrow> string \<Rightarrow> 'db \<Rightarrow> string list \<Rightarrow> ReassignedPR list \<Rightarrow> ReassignedPR list \<times> 'db" where
  "cascadeReassign R teamName db [] reassignedPRs = (reassignedPRs, db)"
| "cascadeReassign R teamName db (userID # rest) reassignedPRs =
     (case UserService_getOpenPRsWithReviewer R db userID of
        Inl err \<Rightarrow> cascadeReassign R teamName db rest reassignedPRs
      | Inr openPRs \<Rightarrow>
          (case reassignOpenPRs R teamName userID db openPRs reassignedPRs of
             (reassignedPRs', db') \<Rightarrow> cascadeReassign R teamName db' rest reassignedPRs'))"

definition UserService_BulkDeactivateUsers ::
  "'db Repos \<Rightarrow> 'db \<Rightarrow> string \<Rightarrow> string list \<Rightarrow> (error + BulkDeactivateResponse) \<times> 'db" where
  "UserService_BulkDeactivateUsers R db teamName userIDs =
     (case teamRepo_TeamExists R db teamName of
        Inl err \<Rightarrow> (Inl (NewServiceError ''INTERNAL_ERROR'' (Error_text err)), db)
      | Inr teamExists \<Rightarrow>
          if \<not> teamExists then (Inl (NewServiceError ''NOT_FOUND'' ''team not found''), db)
          else
            (case deactivateUsers R teamName db userIDs [] of
               (Inl err, db1) \<Rightarrow> (Inl err, db1)
             | (Inr deactivatedUsers, db1) \<Rightarrow>
                 (case cascadeReassign R teamName db1 deactivatedUsers [] of
                    (reassignedPRs, db2) \<Rightarrow>
                      (Inr \<lparr>DeactivatedUsers = deactivatedUsers,
                            ReassignedPRs = reassignedPRs,
                            TotalProcessed = length deactivatedUsers,
                            ReassignedCount = length reassignedPRs\<rparr>, db2))))"

section \<open>TeamService\<close>

definition TeamService_GetTeam :: "'db Repos \<Rightarrow> 'db \<Rightarrow> string \<Rightarrow> error + Team" where
  "TeamService_GetTeam R db teamName =
     (case teamRepo_GetTeam R db teamName of
        Inl err \<Rightarrow> Inl (NewServiceError ''NOT_FOUND'' ''team not found'')
      | Inr team \<Rightarrow> Inr team)"

section \<open>HTTP handlers (internal/handlers)\<close>

text \<open>
  A response is the status code and the JSON body. A request is its method and the value
  of its query parameter (\<open>Query().Get\<close> gives the empty string for a missing one).
\<close>

datatype response_body =
    ErrorResponse string string
  | TeamResponse Team
  | UserPRsResponse string "PullRequestShort list"

type_synonym response = "nat \<times> response_body"

definition writeError :: "string \<Rightarrow> string \<Rightarrow> nat \<Rightarrow> response" where
  "writeError errorCode message statusCode = (statusCode, ErrorResponse errorCode message)"

definition TeamHandler_GetTeam :: "'db Repos \<Rightarrow> 'db \<Rightarrow> string \<Rightarrow> string \<Rightarrow> response" where
  "TeamHandler_GetTeam R db method teamName =
     (if method \<noteq> ''GET'' then writeError ''METHOD_NOT_ALLOWED'' ''Method not allowed'' 405
      else if teamName = [] then writeError ''INVALID_REQUEST'' ''team_name parameter is required'' 400
      else
        (case TeamService_GetTeam R db teamName of
           Inl (ServiceError code message) \<Rightarrow>
             if code = ''NOT_FOUND'' then writeError ''NOT_FOUND'' message 404
             else writeError ''INTERNAL_ERROR'' ''Internal server error'' 500
         | Inl (PlainError m) \<Rightarrow> writeError ''INTERNAL_ERROR'' ''Internal server error'' 500
         | Inr team \<Rightarrow> (200, TeamResponse team)))"

definition UserHandler_GetUserReviewPRs :: "'db Repos \<Rightarrow> 'db \<Rightarrow> string \<Rightarrow> string \<Rightarrow> response" where
  "UserHandler_GetUserReviewPRs R db method userID =
     (if method \<noteq> ''GET'' then writeError ''METHOD_NOT_ALLOWED'' ''Method not allowed'' 405
      else if userID = [] then writeError ''INVALID_REQUEST'' ''user_id parameter is required'' 400
      else
        (case UserService_GetUserReviewPRs R db userID of
           Inl (ServiceError code message) \<Rightarrow>
             if code = ''NOT_FOUND'' then writeError ''NOT_FOUND'' message 404
             else if code = ''INVALID_REQUEST'' then writeError ''INVALID_REQUEST'' message 400
             else writeError ''INTERNAL_ERROR'' ''Internal server error'' 500
         | Inl (PlainError m) \<Rightarrow> writeError ''INTERNAL_ERROR'' ''Internal server error'' 500
         | Inr prs \<Rightarrow> (200, UserPRsResponse userID prs)))"

section \<open>Example stores\<close>

text \<open>
  One team of five users (Eve inactive), an open PR \<open>p1\<close> reviewed by Bob and a merged PR
  \<open>p2\<close> reviewed by Bob and Cy, both written by Ann. The users are stored out of id order.
\<close>

definition demo_store :: store where
  "demo_store =
     \<lparr>teams = [''t1''],
      users = [\<lparr>UserID = ''a'', Username = ''Ann'', TeamName = ''t1'', IsActive = True\<rparr>,
               \<lparr>UserID = ''d'', Username = ''Dan'', TeamName = ''t1'', IsActive = True\<rparr>,
               \<lparr>UserID = ''b'', Username = ''Bob'', TeamName = ''t1'', IsActive = True\<rparr>,
               \<lparr>UserID = ''c'', Username = ''Cy'', TeamName = ''t1'', IsActive = True\<rparr>,
               \<lparr>UserID = ''e'', Username = ''Eve'', TeamName = ''t1'', IsActive = False\<rparr>],
      pull_requests = [\<lparr>pull_request_id = ''p1'', pull_request_name = ''one'', author_id = ''a'',
                         status = ''OPEN'', created_at = 1000, merged_at = None\<rparr>,
                       \<lparr>pull_request_id = ''p2'', pull_request_name = ''two'', author_id = ''a'',
                         status = ''MERGED'', created_at = 2000, merged_at = Some 5000\<rparr>],
      pr_reviewers = [(''p1'', ''b''), (''p2'', ''b''), (''p2'', ''c'')]\<rparr>"

definition empty_store :: store where
  "empty_store = \<lparr>teams = [], users = [], pull_requests = [], pr_reviewers = []\<rparr>"

section \<open>Sequences of calls\<close>

text \<open>
  Any number of Reassign calls, one after the other, each on the store and the random
  source the call before left; the results are dropped.
\<close>

fun reassignCalls :: "store \<Rightarrow> rng \<Rightarrow> (string \<times> string) list \<Rightarrow> store \<times> rng" where
  "reassignCalls db g [] = (db, g)"
| "reassignCalls db g ((prID, oldReviewerID) # rest) =
     (case PRService_ReassignReviewer postgres g db prID oldReviewerID of
        (result, db', g') \<Rightarrow> reassignCalls db' g' rest)"

section \<open>The candidate pools as the specification words them\<close>

text \<open>
  Initial assignment: the team's active members minus the author. Replacement: the active
  members of the old reviewer's team, excluding the PR's author, the old reviewer and
  every reviewer currently assigned to the PR.
\<close>

definition spec_initial_pool :: "store \<Rightarrow> string \<Rightarrow> string \<Rightarrow> string set" where
  "spec_initial_pool db teamName authorID =
     set (map UserID (filter (\<lambda>u. IsActive u \<and> TeamName u = teamName) (users db))) - {authorID}"

definition spec_replacement_pool ::
  "store \<Rightarrow> string \<Rightarrow> string \<Rightarrow> string \<Rightarrow> string list \<Rightarrow> string set" where
  "spec_replacement_pool db teamName authorID oldReviewerID assigned =
     set (map UserID (filter (\<lambda>u. IsActive u \<and> TeamName u = teamName) (users db)))
       - {authorID} - {oldReviewerID} - set assigned"

text \<open>A team of two: Xi wrote the open PR \<open>q1\<close>, Yo reviews it.\<close>

definition pair_store :: store where
  "pair_store =
     \<lparr>teams = [''t2''],
      users = [\<lparr>UserID = ''x'', Username = ''Xi'', TeamName = ''t2'', IsActive = True\<rparr>,
               \<lparr>UserID = ''y'', Username = ''Yo'', TeamName = ''t2'', IsActive = True\<rparr>],
      pull_requests = [\<lparr>pull_request_id = ''q1'', pull_request_name = ''one'', author_id = ''x'',
                         status = ''OPEN'', created_at = 1000, merged_at = None\<rparr>],
      pr_reviewers = [(''q1'', ''y'')]\<rparr>"

section \<open>A store whose reviewer-row write is down\<close>

text \<open>
  The PostgreSQL repositories, except that AssignReviewers leaves by its first error
  exit: the transaction cannot be begun, and nothing is written.
\<close>

definition postgres_assign_unavailable :: "store Repos" where
  "postgres_assign_unavailable =
     postgres\<lparr>reviewRepo_AssignReviewers :=
       (\<lambda>db prID reviewerIDs.
          Inl (wrap ''failed to begin transaction: '' (PlainError ''pq: connection refused'')))\<rparr>"

section \<open>Bulk deactivation: the specification's words and an example\<close>

text \<open>A requested id "resolves to an existing user belonging to the named team".\<close>

definition resolves_in_team :: "store \<Rightarrow> string \<Rightarrow> string \<Rightarrow> bool" where
  "resolves_in_team db teamName userID =
     (case find (\<lambda>u. UserID u = userID) (users db) of
        None \<Rightarrow> False
      | Some u \<Rightarrow> TeamName u = teamName)"

text \<open>
  The example store after Bob has been deactivated, then after the cascade has replaced
  him on \<open>p1\<close>, and the response of that bulk deactivation.
\<close>

definition demo_store_deactivated :: store where
  "demo_store_deactivated =
     \<lparr>teams = [''t1''],
      users = [\<lparr>UserID = ''a'', Username = ''Ann'', TeamName = ''t1'', IsActive = True\<rparr>,
               \<lparr>UserID = ''d'', Username = ''Dan'', TeamName = ''t1'', IsActive = True\<rparr>,
               \<lparr>UserID = ''b'', Username = ''Bob'', TeamName = ''t1'', IsActive = False\<rparr>,
               \<lparr>UserID = ''c'', Username = ''Cy'', TeamName = ''t1'', IsActive = True\<rparr>,
               \<lparr>UserID = ''e'', Username = ''Eve'', TeamName = ''t1'', IsActive = False\<rparr>],
      pull_requests = [\<lparr>pull_request_id = ''p1'', pull_request_name = ''one'', author_id = ''a'',
                         status = ''OPEN'', created_at = 1000, merged_at = None\<rparr>,
                       \<lparr>pull_request_id = ''p2'', pull_request_name = ''two'', author_id = ''a'',
                         status = ''MERGED'', created_at = 2000, merged_at = Some 5000\<rparr>],
      pr_reviewers = [(''p1'', ''b''), (''p2'', ''b''), (''p2'', ''c'')]\<rparr>"

definition demo_store_after_bulk :: store where
  "demo_store_after_bulk =
     demo_store_deactivated\<lparr>pr_reviewers := [(''p2'', ''b''), (''p2'', ''c''), (''p1'', ''c'')]\<rparr>"

definition demo_bulk_response :: BulkDeactivateResponse where
  "demo_bulk_response =
     \<lparr>DeactivatedUsers = [''b''],
      ReassignedPRs = [\<lparr>PRID = ''p1'', OldReviewers = [''b''], NewReviewers = [''c'']\<rparr>],
      TotalProcessed = 1,
      ReassignedCount = 1\<rparr>"

section \<open>Verified properties\<close>

subsection \<open>Lookups in the tables\<close>

lemma find_None_iff_ids: "(find (\<lambda>u. f u = k) xs = None) = (k \<notin> set (map f xs))"
  by (induction xs) auto

lemma find_exists_key:
  "k \<in> set (map key xs) \<Longrightarrow> \<exists>y. find (\<lambda>x. key x = k) xs = Some y"
  by (induction xs) auto

lemma find_Some_key: "find (\<lambda>x. key x = k) xs = Some y \<Longrightarrow> key y = k \<and> y \<in> set xs"
  by (induction xs) (auto split: if_splits)

lemma find_map_keeps_key:
  assumes "\<And>x. key (f x) = key x"
  shows "find (\<lambda>x. key x = k) (map f xs) = map_option f (find (\<lambda>x. key x = k) xs)"
  by (induction xs) (simp_all add: assms)

lemma schema_ok_row:
  assumes "schema_ok db" "p \<in> set (pull_requests db)"
  shows "author_id p \<in> set (map UserID (users db))"
    and "status p = ''OPEN'' \<or> status p = ''MERGED''"
    and "length (pull_request_name p) \<le> 200"
    and "length (pull_request_id p) \<le> 100"
    and "length (author_id p) \<le> 100"
    and "pg_text_ok (pull_request_id p)"
    and "pg_text_ok (pull_request_name p)"
    and "pg_text_ok (author_id p)"
  using assms by (auto simp: schema_ok_def list_all_iff)


lemma schema_ok_team_len:
  assumes "schema_ok db" "t \<in> set (teams db)"
  shows "length t \<le> 100"
  using assms by (auto simp: schema_ok_def list_all_iff)

lemma demo_store_ok: "schema_ok demo_store"
  by (simp add: schema_ok_def demo_store_def pg_text_ok_def)

subsection \<open>Merge\<close>

lemma pg_text_ok_status: "pg_text_ok ''OPEN''" "pg_text_ok ''MERGED''"
  by (simp_all add: pg_text_ok_def)

text \<open>The column keeps a time as it is exactly when it is a whole number of microseconds.\<close>

lemma timestamptz_whole: "(timestamptz t = t) = (t mod 1000 = 0)"
proof
  assume "timestamptz t = t"
  then have "t = ((t + 500) div 1000) * 1000" by (simp add: timestamptz_def)
  then have "t mod 1000 = (((t + 500) div 1000) * 1000) mod 1000" by simp
  then show "t mod 1000 = 0" by simp
next
  assume "t mod 1000 = 0"
  then have "1000 dvd t" by (simp add: dvd_eq_mod_eq_0)
  then obtain k where "t = 1000 * k" by (auto elim: dvdE)
  then show "timestamptz t = t" by (simp add: timestamptz_def)
qed

lemma MergePR_merged:
  assumes "find (\<lambda>p. pull_request_id p = prID) (pull_requests db) = Some p" "status p = ''MERGED''"
  shows "PRService_MergePR postgres db prID now =
           (Inr \<lparr>PullRequestID = pull_request_id p, PullRequestName = pull_request_name p,
                 AuthorID = author_id p, Status = ''MERGED'',
                 AssignedReviewers = getPRReviewers db prID,
                 CreatedAt = created_at p, MergedAt = merged_at p\<rparr>, db)"
  using assms by (simp add: PRService_MergePR_def postgres_def PRRepository_GetPR_def)

text \<open>
  Merging an open PR: the PR that is returned carries the reading of the clock, the row
  that is written carries it at the column's resolution.
\<close>

lemma MergePR_open:
  assumes ok: "schema_ok db"
    and f: "find (\<lambda>p. pull_request_id p = prID) (pull_requests db) = Some p"
    and st: "status p = ''OPEN''"
  shows "PRService_MergePR postgres db prID now =
           (Inr \<lparr>PullRequestID = prID, PullRequestName = pull_request_name p,
                 AuthorID = author_id p, Status = ''MERGED'',
                 AssignedReviewers = getPRReviewers db prID,
                 CreatedAt = created_at p, MergedAt = Some now\<rparr>,
            db\<lparr>pull_requests :=
                 map (\<lambda>q. if pull_request_id q = prID
                           then q\<lparr>pull_request_name := pull_request_name p,
                                  author_id := author_id p,
                                  status := ''MERGED'',
                                  merged_at := Some (timestamptz now)\<rparr>
                           else q) (pull_requests db)\<rparr>)"
proof -
  from find_Some_key[OF f] have k: "pull_request_id p = prID" and m: "p \<in> set (pull_requests db)"
    by simp_all
  from m have ex: "prID \<in> set (map pull_request_id (pull_requests db))"
    using k by force
  note row = schema_ok_row[OF ok m]
  have tx: "pg_text_ok prID" using row(6) k by simp
  show ?thesis
    using f st k ex row(1) row(3) row(5) row(7) row(8) tx pg_text_ok_status(2)
    by (simp add: PRService_MergePR_def postgres_def PRRepository_GetPR_def
          PRRepository_UpdatePR_def Let_def)
qed

text \<open>
  C2, as amended. For every PR in the store, two calls of Merge both succeed and both
  return the PR with status MERGED, and the second call leaves the store as the first
  left it: the merge time is stamped once. A PR that was MERGED comes back both times as
  it is stored, and the store is untouched. A PR that was OPEN comes back from the first
  call stamped with the reading of the clock, and from the second call (and from any
  later read) stamped with the stored time, which is that reading at the resolution of
  the column: the two timestamps are equal exactly when the reading is a whole number of
  microseconds.
\<close>

theorem merge_twice_stored_timestamp:
  assumes ok: "schema_ok db"
    and ex: "prID \<in> set (map pull_request_id (pull_requests db))"
  shows "\<exists>cur pr1 pr2 db1.
           PRRepository_GetPR db prID = Inr cur \<and>
           (Status cur = ''MERGED'' \<or> Status cur = ''OPEN'') \<and>
           PRService_MergePR postgres db prID t1 = (Inr pr1, db1) \<and>
           PRService_MergePR postgres db1 prID t2 = (Inr pr2, db1) \<and>
           PRRepository_GetPR db1 prID = Inr pr2 \<and>
           Status pr1 = ''MERGED'' \<and> Status pr2 = ''MERGED'' \<and>
           (Status cur = ''MERGED'' \<longrightarrow> pr1 = cur \<and> pr2 = cur \<and> db1 = db) \<and>
           (Status cur = ''OPEN'' \<longrightarrow>
              pr1 = cur\<lparr>Status := ''MERGED'', MergedAt := Some t1\<rparr> \<and>
              pr2 = cur\<lparr>Status := ''MERGED'', MergedAt := Some (timestamptz t1)\<rparr> \<and>
              (pr2 = pr1) = (t1 mod 1000 = 0))"
proof -
  from find_exists_key[OF ex] obtain p
    where f: "find (\<lambda>p. pull_request_id p = prID) (pull_requests db) = Some p" by blast
  from find_Some_key[OF f] have k: "pull_request_id p = prID" and m: "p \<in> set (pull_requests db)"
    by simp_all
  let ?cur = "\<lparr>PullRequestID = pull_request_id p, PullRequestName = pull_request_name p,
                AuthorID = author_id p, Status = status p,
                AssignedReviewers = getPRReviewers db prID,
                CreatedAt = created_at p, MergedAt = merged_at p\<rparr>"
  have cur: "PRRepository_GetPR db prID = Inr ?cur"
    using f by (simp add: PRRepository_GetPR_def)
  from schema_ok_row(2)[OF ok m] consider "status p = ''MERGED''" | "status p = ''OPEN''" by blast
  then show ?thesis
  proof cases
    case 1
    have "PRService_MergePR postgres db prID t1 = (Inr ?cur, db)"
      using MergePR_merged[OF f 1, of t1] 1 by simp
    moreover have "PRService_MergePR postgres db prID t2 = (Inr ?cur, db)"
      using MergePR_merged[OF f 1, of t2] 1 by simp
    moreover have "Status ?cur \<noteq> ''OPEN''" using 1 by simp
    ultimately show ?thesis using cur 1
      by (intro exI[of _ ?cur] exI[of _ ?cur] exI[of _ ?cur] exI[of _ db]) simp
  next
    case 2
    let ?upd = "\<lambda>q. if pull_request_id q = prID
                     then q\<lparr>pull_request_name := pull_request_name p, author_id := author_id p,
                            status := ''MERGED'', merged_at := Some (timestamptz t1)\<rparr>
                     else q"
    let ?db1 = "db\<lparr>pull_requests := map ?upd (pull_requests db)\<rparr>"
    let ?pr1 = "\<lparr>PullRequestID = prID, PullRequestName = pull_request_name p,
                  AuthorID = author_id p, Status = ''MERGED'',
                  AssignedReviewers = getPRReviewers db prID,
                  CreatedAt = created_at p, MergedAt = Some t1\<rparr>"
    let ?pr2 = "\<lparr>PullRequestID = prID, PullRequestName = pull_request_name p,
                  AuthorID = author_id p, Status = ''MERGED'',
                  AssignedReviewers = getPRReviewers db prID,
                  CreatedAt = created_at p, MergedAt = Some (timestamptz t1)\<rparr>"
    have first: "PRService_MergePR postgres db prID t1 = (Inr ?pr1, ?db1)"
      by (rule MergePR_open[OF ok f 2])
    have keep: "\<And>x. pull_request_id (?upd x) = pull_request_id x" by simp
    have "find (\<lambda>q. pull_request_id q = prID) (map ?upd (pull_requests db))
            = map_option ?upd (find (\<lambda>q. pull_request_id q = prID) (pull_requests db))"
      by (rule find_map_keeps_key[where key = pull_request_id, OF keep])
    then have f1: "find (\<lambda>q. pull_request_id q = prID) (pull_requests ?db1) = Some (?upd p)"
      using f by simp
    have st1: "status (?upd p) = ''MERGED''" using k by simp
    have second: "PRService_MergePR postgres ?db1 prID t2 = (Inr ?pr2, ?db1)"
      using MergePR_merged[OF f1 st1, of t2] k by (simp add: getPRReviewers_def)
    have read: "PRRepository_GetPR ?db1 prID = Inr ?pr2"
      using f1 k by (simp add: PRRepository_GetPR_def getPRReviewers_def)
    have nm: "Status ?cur \<noteq> ''MERGED''" using 2 by simp
    have e1: "?pr1 = ?cur\<lparr>Status := ''MERGED'', MergedAt := Some t1\<rparr>" using k by simp
    have e2: "?pr2 = ?cur\<lparr>Status := ''MERGED'', MergedAt := Some (timestamptz t1)\<rparr>"
      using k by simp
    have e3: "(?pr2 = ?pr1) = (t1 mod 1000 = 0)"
      using timestamptz_whole[of t1] by simp
    have s1: "Status ?pr1 = ''MERGED''" and s2: "Status ?pr2 = ''MERGED''" by simp_all
    have o: "Status ?cur = ''MERGED'' \<or> Status ?cur = ''OPEN''" using 2 by simp
    show ?thesis
      using cur o first second read s1 s2 nm e1 e2 e3
      by (intro exI[of _ ?cur] exI[of _ ?pr1] exI[of _ ?pr2] exI[of _ ?db1] conjI) simp_all
  qed
qed

text \<open>
  The open PR \<open>p1\<close> of the example store, merged at 7000 ns (a whole number of
  microseconds) and again at 9000 ns: both calls return the same PR. The merged PR \<open>p2\<close>
  comes back as it is stored.
\<close>

theorem merge_twice_stored_timestamp_witness:
  "schema_ok demo_store \<and>
   ''p1'' \<in> set (map pull_request_id (pull_requests demo_store)) \<and>
   ''p2'' \<in> set (map pull_request_id (pull_requests demo_store)) \<and>
   (\<exists>db1.
      PRService_MergePR postgres demo_store ''p1'' 7000
        = (Inr \<lparr>PullRequestID = ''p1'', PullRequestName = ''one'', AuthorID = ''a'',
                Status = ''MERGED'', AssignedReviewers = [''b''], CreatedAt = 1000,
                MergedAt = Some 7000\<rparr>, db1) \<and>
      PRService_MergePR postgres db1 ''p1'' 9000
        = (Inr \<lparr>PullRequestID = ''p1'', PullRequestName = ''one'', AuthorID = ''a'',
                Status = ''MERGED'', AssignedReviewers = [''b''], CreatedAt = 1000,
                MergedAt = Some 7000\<rparr>, db1)) \<and>
   PRService_MergePR postgres demo_store ''p2'' 7000
     = (Inr \<lparr>PullRequestID = ''p2'', PullRequestName = ''two'', AuthorID = ''a'',
             Status = ''MERGED'', AssignedReviewers = [''b'', ''c''], CreatedAt = 2000,
             MergedAt = Some 5000\<rparr>, demo_store)"
proof -
  have a: "schema_ok demo_store" by (rule demo_store_ok)
  have b: "''p1'' \<in> set (map pull_request_id (pull_requests demo_store))"
    by (simp add: demo_store_def)
  have b2: "''p2'' \<in> set (map pull_request_id (pull_requests demo_store))"
    by (simp add: demo_store_def)
  have c: "PRRepository_GetPR demo_store ''p1''
             = Inr \<lparr>PullRequestID = ''p1'', PullRequestName = ''one'', AuthorID = ''a'',
                    Status = ''OPEN'', AssignedReviewers = [''b''], CreatedAt = 1000,
                    MergedAt = None\<rparr>"
    by (simp add: PRRepository_GetPR_def getPRReviewers_def demo_store_def)
  have c2: "PRRepository_GetPR demo_store ''p2''
             = Inr \<lparr>PullRequestID = ''p2'', PullRequestName = ''two'', AuthorID = ''a'',
                    Status = ''MERGED'', AssignedReviewers = [''b'', ''c''], CreatedAt = 2000,
                    MergedAt = Some 5000\<rparr>"
    by (simp add: PRRepository_GetPR_def getPRReviewers_def demo_store_def)
  have r: "timestamptz 7000 = 7000" by (simp add: timestamptz_def)
  from merge_twice_stored_timestamp[OF a b, of 7000 9000] obtain cur pr1 pr2 db1 where
    1: "PRRepository_GetPR demo_store ''p1'' = Inr cur"
    and 2: "PRService_MergePR postgres demo_store ''p1'' 7000 = (Inr pr1, db1)"
    and 3: "PRService_MergePR postgres db1 ''p1'' 9000 = (Inr pr2, db1)"
    and 4: "Status cur = ''OPEN'' \<longrightarrow>
              pr1 = cur\<lparr>Status := ''MERGED'', MergedAt := Some 7000\<rparr> \<and>
              pr2 = cur\<lparr>Status := ''MERGED'', MergedAt := Some (timestamptz 7000)\<rparr>"
    by blast
  from 1 c have cv: "cur = \<lparr>PullRequestID = ''p1'', PullRequestName = ''one'', AuthorID = ''a'',
                         Status = ''OPEN'', AssignedReviewers = [''b''], CreatedAt = 1000,
                         MergedAt = None\<rparr>" by simp
  with 4 have p1: "pr1 = \<lparr>PullRequestID = ''p1'', PullRequestName = ''one'', AuthorID = ''a'',
                       Status = ''MERGED'', AssignedReviewers = [''b''], CreatedAt = 1000,
                       MergedAt = Some 7000\<rparr>" by simp
  from cv 4 r have p2: "pr2 = \<lparr>PullRequestID = ''p1'', PullRequestName = ''one'', AuthorID = ''a'',
                       Status = ''MERGED'', AssignedReviewers = [''b''], CreatedAt = 1000,
                       MergedAt = Some 7000\<rparr>" by simp
  from 2 3 p1 p2 have open_case: "\<exists>db1.
      PRService_MergePR postgres demo_store ''p1'' 7000
        = (Inr \<lparr>PullRequestID = ''p1'', PullRequestName = ''one'', AuthorID = ''a'',
                Status = ''MERGED'', AssignedReviewers = [''b''], CreatedAt = 1000,
                MergedAt = Some 7000\<rparr>, db1) \<and>
      PRService_MergePR postgres db1 ''p1'' 9000
        = (Inr \<lparr>PullRequestID = ''p1'', PullRequestName = ''one'', AuthorID = ''a'',
                Status = ''MERGED'', AssignedReviewers = [''b''], CreatedAt = 1000,
                MergedAt = Some 7000\<rparr>, db1)" by blast
  from merge_twice_stored_timestamp[OF a b2, of 7000 9000] obtain cur' pr1' db1' where
    5: "PRRepository_GetPR demo_store ''p2'' = Inr cur'"
    and 6: "PRService_MergePR postgres demo_store ''p2'' 7000 = (Inr pr1', db1')"
    and 7: "Status cur' = ''MERGED'' \<longrightarrow> pr1' = cur' \<and> db1' = demo_store"
    by blast
  from 5 c2 have "cur' = \<lparr>PullRequestID = ''p2'', PullRequestName = ''two'', AuthorID = ''a'',
                    Status = ''MERGED'', AssignedReviewers = [''b'', ''c''], CreatedAt = 2000,
                    MergedAt = Some 5000\<rparr>" by simp
  with 6 7 have merged_case: "PRService_MergePR postgres demo_store ''p2'' 7000
     = (Inr \<lparr>PullRequestID = ''p2'', PullRequestName = ''two'', AuthorID = ''a'',
             Status = ''MERGED'', AssignedReviewers = [''b'', ''c''], CreatedAt = 2000,
             MergedAt = Some 5000\<rparr>, demo_store)" by simp
  from a b b2 open_case merged_case show ?thesis by blast
qed

text \<open>
  C2 as stated fails on the timestamp. The open PR \<open>p1\<close> merged when the clock reads
  7001 ns: the first call returns the merge time 7001, the second call returns the
  stored merge time 7000, and both succeed with status MERGED on the same store.
\<close>

theorem merge_twice_timestamp_counterexample:
  "PRService_MergePR postgres demo_store ''p1'' 7001
     = (Inr \<lparr>PullRequestID = ''p1'', PullRequestName = ''one'', AuthorID = ''a'',
             Status = ''MERGED'', AssignedReviewers = [''b''], CreatedAt = 1000,
             MergedAt = Some 7001\<rparr>,
        demo_store\<lparr>pull_requests :=
          [\<lparr>pull_request_id = ''p1'', pull_request_name = ''one'', author_id = ''a'',
            status = ''MERGED'', created_at = 1000, merged_at = Some 7000\<rparr>,
           \<lparr>pull_request_id = ''p2'', pull_request_name = ''two'', author_id = ''a'',
            status = ''MERGED'', created_at = 2000, merged_at = Some 5000\<rparr>]\<rparr>) \<and>
   PRService_MergePR postgres
       (demo_store\<lparr>pull_requests :=
          [\<lparr>pull_request_id = ''p1'', pull_request_name = ''one'', author_id = ''a'',
            status = ''MERGED'', created_at = 1000, merged_at = Some 7000\<rparr>,
           \<lparr>pull_request_id = ''p2'', pull_request_name = ''two'', author_id = ''a'',
            status = ''MERGED'', created_at = 2000, merged_at = Some 5000\<rparr>]\<rparr>)
       ''p1'' 9000
     = (Inr \<lparr>PullRequestID = ''p1'', PullRequestName = ''one'', AuthorID = ''a'',
             Status = ''MERGED'', AssignedReviewers = [''b''], CreatedAt = 1000,
             MergedAt = Some 7000\<rparr>,
        demo_store\<lparr>pull_requests :=
          [\<lparr>pull_request_id = ''p1'', pull_request_name = ''one'', author_id = ''a'',
            status = ''MERGED'', created_at = 1000, merged_at = Some 7000\<rparr>,
           \<lparr>pull_request_id = ''p2'', pull_request_name = ''two'', author_id = ''a'',
            status = ''MERGED'', created_at = 2000, merged_at = Some 5000\<rparr>]\<rparr>)"
  by (simp add: PRService_MergePR_def postgres_def PRRepository_GetPR_def
        PRRepository_UpdatePR_def getPRReviewers_def pg_text_ok_def timestamptz_def
        demo_store_def Let_def)

subsection \<open>GET /team/get\<close>

text \<open>
  C6. The claim asks for 404 NOT_FOUND when the team does not exist. The handler answers
  200 with an empty member list: on the empty store, a request for the team \<open>ghost\<close>
  succeeds.
\<close>

theorem team_get_absent_team_is_200:
  "TeamHandler_GetTeam postgres empty_store ''GET'' ''ghost''
     = (200, TeamResponse \<lparr>team_TeamName = ''ghost'', team_Members = []\<rparr>)"
  by (simp add: TeamHandler_GetTeam_def TeamService_GetTeam_def postgres_def
        TeamRepository_GetTeam_def pg_text_ok_def empty_store_def)

text \<open>
  Whatever the store, the handler answers 404 to no team name that a text of the
  database can hold: present or absent, such a team is answered 200. Its only 404 is the
  answer to a name that holds NUL, on which the query fails.
\<close>

lemma team_get_404_only_for_NUL:
  "(fst (TeamHandler_GetTeam postgres db method teamName) = 404)
     = (method = ''GET'' \<and> teamName \<noteq> [] \<and> \<not> pg_text_ok teamName)"
  by (simp add: TeamHandler_GetTeam_def TeamService_GetTeam_def postgres_def
        TeamRepository_GetTeam_def writeError_def NewServiceError_def)

lemma team_get_200_for_every_text:
  "pg_text_ok teamName \<Longrightarrow> teamName \<noteq> [] \<Longrightarrow>
     fst (TeamHandler_GetTeam postgres db ''GET'' teamName) = 200"
  by (simp add: TeamHandler_GetTeam_def TeamService_GetTeam_def postgres_def
        TeamRepository_GetTeam_def)

subsection \<open>GET /users/getReview\<close>

text \<open>
  C9, as amended. A user id that resolves to no user makes the service fail with
  NOT_FOUND, and for every non-empty such id the handler answers 404 NOT_FOUND, not an
  empty list. The empty list without error is the answer for a user that exists and is
  inactive, and whatever the request, the handler answers 200 only for a user that exists.
\<close>

theorem getReview_unknown_user_is_404:
  "(userID \<notin> set (map UserID (users db)) \<longrightarrow>
      UserService_GetUserReviewPRs postgres db userID
        = Inl (ServiceError ''NOT_FOUND'' ''user not found'') \<and>
      (userID \<noteq> [] \<longrightarrow>
         UserHandler_GetUserReviewPRs postgres db ''GET'' userID
           = (404, ErrorResponse ''NOT_FOUND'' ''user not found''))) \<and>
   (\<forall>u. UserRepository_GetUser db userID = Inr u \<and> \<not> IsActive u \<longrightarrow>
      UserService_GetUserReviewPRs postgres db userID = Inr [] \<and>
      (userID \<noteq> [] \<longrightarrow>
         UserHandler_GetUserReviewPRs postgres db ''GET'' userID
           = (200, UserPRsResponse userID []))) \<and>
   (fst (UserHandler_GetUserReviewPRs postgres db method userID) = 200 \<longrightarrow>
      userID \<in> set (map UserID (users db)))"
proof (intro conjI impI allI)
  assume "userID \<notin> set (map UserID (users db))"
  then have "find (\<lambda>u. UserID u = userID) (users db) = None"
    by (simp add: find_None_iff_ids)
  then show svc: "UserService_GetUserReviewPRs postgres db userID
                    = Inl (ServiceError ''NOT_FOUND'' ''user not found'')"
    by (simp add: UserService_GetUserReviewPRs_def postgres_def UserRepository_GetUser_def
          NewServiceError_def)
  assume "userID \<noteq> []"
  with svc show "UserHandler_GetUserReviewPRs postgres db ''GET'' userID
                   = (404, ErrorResponse ''NOT_FOUND'' ''user not found'')"
    by (simp add: UserHandler_GetUserReviewPRs_def writeError_def)
next
  fix u
  assume "UserRepository_GetUser db userID = Inr u \<and> \<not> IsActive u"
  then show svc: "UserService_GetUserReviewPRs postgres db userID = Inr []"
    by (simp add: UserService_GetUserReviewPRs_def postgres_def)
  assume "userID \<noteq> []"
  with svc show "UserHandler_GetUserReviewPRs postgres db ''GET'' userID
                   = (200, UserPRsResponse userID [])"
    by (simp add: UserHandler_GetUserReviewPRs_def)
next
  assume ok: "fst (UserHandler_GetUserReviewPRs postgres db method userID) = 200"
  show "userID \<in> set (map UserID (users db))"
  proof (rule ccontr)
    assume "userID \<notin> set (map UserID (users db))"
    then have "find (\<lambda>u. UserID u = userID) (users db) = None"
      by (simp add: find_None_iff_ids)
    then have "UserService_GetUserReviewPRs postgres db userID
                 = Inl (ServiceError ''NOT_FOUND'' ''user not found'')"
      by (simp add: UserService_GetUserReviewPRs_def postgres_def UserRepository_GetUser_def
            NewServiceError_def)
    then have "fst (UserHandler_GetUserReviewPRs postgres db method userID) \<noteq> 200"
      by (simp add: UserHandler_GetUserReviewPRs_def writeError_def)
    with ok show False by simp
  qed
qed

text \<open>
  C9 as stated fails for the empty id: it resolves to no user, and the handler rejects it
  as a missing parameter with 400 INVALID_REQUEST before any lookup.
\<close>

theorem getReview_empty_user_id_counterexample:
  "[] \<notin> set (map UserID (users demo_store)) \<and>
   UserHandler_GetUserReviewPRs postgres demo_store ''GET'' []
     = (400, ErrorResponse ''INVALID_REQUEST'' ''user_id parameter is required'')"
  by (simp add: UserHandler_GetUserReviewPRs_def writeError_def demo_store_def)

text \<open>In the example store: no user \<open>ghost\<close>, and the inactive user \<open>e\<close>.\<close>

theorem getReview_unknown_user_is_404_witness:
  "''ghost'' \<notin> set (map UserID (users demo_store)) \<and>
   UserHandler_GetUserReviewPRs postgres demo_store ''GET'' ''ghost''
     = (404, ErrorResponse ''NOT_FOUND'' ''user not found'') \<and>
   UserRepository_GetUser demo_store ''e''
     = Inr \<lparr>UserID = ''e'', Username = ''Eve'', TeamName = ''t1'', IsActive = False\<rparr> \<and>
   UserHandler_GetUserReviewPRs postgres demo_store ''GET'' ''e''
     = (200, UserPRsResponse ''e'' [])"
proof -
  have a: "''ghost'' \<notin> set (map UserID (users demo_store))"
    by (simp add: demo_store_def)
  have b: "UserRepository_GetUser demo_store ''e''
             = Inr \<lparr>UserID = ''e'', Username = ''Eve'', TeamName = ''t1'', IsActive = False\<rparr>"
    by (simp add: UserRepository_GetUser_def demo_store_def)
  from getReview_unknown_user_is_404[of "''ghost''" demo_store] a
  have c: "UserHandler_GetUserReviewPRs postgres demo_store ''GET'' ''ghost''
             = (404, ErrorResponse ''NOT_FOUND'' ''user not found'')" by simp
  from getReview_unknown_user_is_404[of "''e''" demo_store] b
  have d: "UserHandler_GetUserReviewPRs postgres demo_store ''GET'' ''e''
             = (200, UserPRsResponse ''e'' [])" by simp
  from a b c d show ?thesis by simp
qed

subsection \<open>Reassign on a merged PR\<close>

lemmas postgres_defs =
  postgres_def TeamRepository_GetTeam_def TeamRepository_TeamExists_def
  UserRepository_GetUser_def UserRepository_UpdateUser_def UserRepository_GetActiveUsersByTeam_def
  PRRepository_CreatePR_def PRRepository_GetPR_def PRRepository_UpdatePR_def
  PRRepository_PRExists_def PRRepository_GetPRsByReviewer_def getPRReviewers_def
  ReviewRepository_AssignReviewers_def ReviewRepository_GetAssignedReviewers_def
  ReviewRepository_ReplaceReviewer_def ReviewRepository_IsReviewerAssigned_def
  insert_reviewer_def pg_text_ok_def timestamptz_def

lemma ReassignReviewer_store:
  assumes "PRService_ReassignReviewer postgres g db q old = (r, db', g')"
  shows "db' = db \<or> (\<exists>new. ReviewRepository_ReplaceReviewer db q old new = Inr db')"
  using assms
  by (auto simp: PRService_ReassignReviewer_def postgres_def
           split: sum.splits if_splits prod.splits)

lemma rows_of_other_PR:
  "q \<noteq> prID \<Longrightarrow>
   filter (\<lambda>r. fst r = prID) (filter (\<lambda>r. r \<noteq> (q, old)) rows @ [(q, new)])
     = filter (\<lambda>r. fst r = prID) rows"
  by (induction rows) auto

lemma ReplaceReviewer_other_PR:
  assumes "ReviewRepository_ReplaceReviewer db q old new = Inr db'" "q \<noteq> prID"
  shows "PRRepository_GetPR db' prID = PRRepository_GetPR db prID"
proof -
  from assms(1) have "pull_requests db' = pull_requests db"
    and "pr_reviewers db' = filter (\<lambda>r. r \<noteq> (q, old)) (pr_reviewers db) @ [(q, new)]"
    by (auto simp: ReviewRepository_ReplaceReviewer_def insert_reviewer_def
          split: if_splits option.splits)
  moreover from this have "getPRReviewers db' prID = getPRReviewers db prID"
    unfolding getPRReviewers_def
    by (simp only: rows_of_other_PR[OF assms(2)])
  ultimately show ?thesis
    by (simp add: PRRepository_GetPR_def split: option.splits)
qed

lemma ReassignReviewer_merged:
  assumes "PRRepository_GetPR db prID = Inr pr" "Status pr = ''MERGED''"
  shows "PRService_ReassignReviewer postgres g db prID old
           = (Inl (ServiceError ''PR_MERGED'' ''cannot reassign on merged PR''), db, g)"
  using assms by (simp add: PRService_ReassignReviewer_def postgres_def NewServiceError_def)

lemma ReassignReviewer_keeps_merged:
  assumes r: "PRService_ReassignReviewer postgres g db q old = (r, db', g')"
    and pr: "PRRepository_GetPR db prID = Inr pr" and st: "Status pr = ''MERGED''"
  shows "PRRepository_GetPR db' prID = Inr pr"
proof (cases "q = prID")
  case True
  with r ReassignReviewer_merged[OF pr st, of g old] have "db' = db" by simp
  with pr show ?thesis by simp
next
  case False
  from ReassignReviewer_store[OF r] show ?thesis
  proof
    assume "db' = db" with pr show ?thesis by simp
  next
    assume "\<exists>new. ReviewRepository_ReplaceReviewer db q old new = Inr db'"
    then obtain new where "ReviewRepository_ReplaceReviewer db q old new = Inr db'" ..
    from ReplaceReviewer_other_PR[OF this False] pr show ?thesis by simp
  qed
qed

lemma reassignCalls_keep_merged:
  assumes "PRRepository_GetPR db prID = Inr pr" "Status pr = ''MERGED''"
  shows "PRRepository_GetPR (fst (reassignCalls db g calls)) prID = Inr pr"
  using assms
proof (induction calls arbitrary: db g)
  case Nil
  then show ?case by simp
next
  case (Cons c calls)
  obtain q old where c: "c = (q, old)" by (cases c)
  obtain r db' g' where step: "PRService_ReassignReviewer postgres g db q old = (r, db', g')"
    by (cases "PRService_ReassignReviewer postgres g db q old")
  from ReassignReviewer_keeps_merged[OF step Cons.prems]
  have "PRRepository_GetPR db' prID = Inr pr" .
  from Cons.IH[OF this Cons.prems(2), of g'] show ?case using c step by simp
qed

text \<open>
  C4. On a PR whose status is MERGED, Reassign fails with PR_MERGED and returns the store
  and the random source untouched. After any sequence of Reassign calls (on any PRs, for
  any reviewers, with any random draws) the PR reads back exactly as before, status and
  reviewer list included, its assignment rows are the same, and Reassign on it still
  fails with PR_MERGED.
\<close>

theorem reassign_on_merged_pr_fails:
  assumes "PRRepository_GetPR db prID = Inr pr" "Status pr = ''MERGED''"
  shows "PRService_ReassignReviewer postgres g db prID oldReviewerID
           = (Inl (ServiceError ''PR_MERGED'' ''cannot reassign on merged PR''), db, g) \<and>
         (\<forall>calls g0 db' g' oldID g1.
            reassignCalls db g0 calls = (db', g') \<longrightarrow>
              PRRepository_GetPR db' prID = Inr pr \<and>
              ReviewRepository_GetAssignedReviewers db' prID = Inr (AssignedReviewers pr) \<and>
              PRService_ReassignReviewer postgres g1 db' prID oldID
                = (Inl (ServiceError ''PR_MERGED'' ''cannot reassign on merged PR''), db', g1))"
proof (intro conjI allI impI)
  show "PRService_ReassignReviewer postgres g db prID oldReviewerID
           = (Inl (ServiceError ''PR_MERGED'' ''cannot reassign on merged PR''), db, g)"
    by (rule ReassignReviewer_merged[OF assms])
next
  fix calls g0 db' g' oldID g1
  assume "reassignCalls db g0 calls = (db', g')"
  with reassignCalls_keep_merged[OF assms, of g0 calls]
  show pr': "PRRepository_GetPR db' prID = Inr pr" by simp
  then show "ReviewRepository_GetAssignedReviewers db' prID = Inr (AssignedReviewers pr)"
    by (auto simp: PRRepository_GetPR_def ReviewRepository_GetAssignedReviewers_def
          getPRReviewers_def split: option.splits)
  from ReassignReviewer_merged[OF pr' assms(2)]
  show "PRService_ReassignReviewer postgres g1 db' prID oldID
          = (Inl (ServiceError ''PR_MERGED'' ''cannot reassign on merged PR''), db', g1)" .
qed

text \<open>
  In the example store \<open>p2\<close> is merged and \<open>p1\<close> is open. Reassigning Bob on \<open>p1\<close>
  with the draw 0 installs Cy there.
\<close>

lemma demo_reassign_p1:
  "PRService_ReassignReviewer postgres (sconst 0) demo_store ''p1'' ''b''
     = (Inr (\<lparr>PullRequestID = ''p1'', PullRequestName = ''one'', AuthorID = ''a'',
              Status = ''OPEN'', AssignedReviewers = [''c''], CreatedAt = 1000, MergedAt = None\<rparr>, ''c''),
        demo_store\<lparr>pr_reviewers := [(''p2'', ''b''), (''p2'', ''c''), (''p1'', ''c'')]\<rparr>,
        sconst 0)"
  by (simp add: PRService_ReassignReviewer_def PRService_selectReplacementReviewer_def
        PRService_replacementCandidates_def PRService_isReviewerAssignedToPR_def
        PRService_replaceInSlice_def rand_Intn_def
        postgres_defs demo_store_def)

text \<open>
  Three calls in a row, the middle one changing \<open>p1\<close>: the merged \<open>p2\<close> keeps Bob and Cy.
\<close>

theorem reassign_on_merged_pr_fails_witness:
  "PRRepository_GetPR demo_store ''p2''
     = Inr \<lparr>PullRequestID = ''p2'', PullRequestName = ''two'', AuthorID = ''a'',
            Status = ''MERGED'', AssignedReviewers = [''b'', ''c''], CreatedAt = 2000,
            MergedAt = Some 5000\<rparr> \<and>
   PRService_ReassignReviewer postgres (sconst 0) demo_store ''p2'' ''b''
     = (Inl (ServiceError ''PR_MERGED'' ''cannot reassign on merged PR''), demo_store, sconst 0) \<and>
   ReviewRepository_GetAssignedReviewers
       (fst (reassignCalls demo_store (sconst 0) [(''p2'', ''b''), (''p1'', ''b''), (''p2'', ''c'')]))
       ''p2''
     = Inr [''b'', ''c'']"
proof -
  let ?pr = "\<lparr>PullRequestID = ''p2'', PullRequestName = ''two'', AuthorID = ''a'',
               Status = ''MERGED'', AssignedReviewers = [''b'', ''c''], CreatedAt = 2000,
               MergedAt = Some 5000\<rparr>"
  have a: "PRRepository_GetPR demo_store ''p2'' = Inr ?pr"
    by (simp add: PRRepository_GetPR_def getPRReviewers_def demo_store_def)
  have b: "Status ?pr = ''MERGED''" by simp
  note inst = reassign_on_merged_pr_fails[OF a b, of "sconst 0" "''b''"]
  from inst have c: "PRService_ReassignReviewer postgres (sconst 0) demo_store ''p2'' ''b''
     = (Inl (ServiceError ''PR_MERGED'' ''cannot reassign on merged PR''), demo_store, sconst 0)"
    by blast
  from inst have "\<And>calls g0 db' g'. reassignCalls demo_store g0 calls = (db', g') \<Longrightarrow>
            ReviewRepository_GetAssignedReviewers db' ''p2'' = Inr (AssignedReviewers ?pr)"
    by blast
  from this[OF prod.collapse[symmetric]]
  have e: "\<And>calls g0. ReviewRepository_GetAssignedReviewers
              (fst (reassignCalls demo_store g0 calls)) ''p2'' = Inr [''b'', ''c'']"
    by (simp del: reassignCalls.simps)
  have d: "ReviewRepository_GetAssignedReviewers
       (fst (reassignCalls demo_store (sconst 0) [(''p2'', ''b''), (''p1'', ''b''), (''p2'', ''c'')]))
       ''p2'' = Inr [''b'', ''c'']" by (rule e)
  from a c d show ?thesis by (simp del: reassignCalls.simps)
qed

subsection \<open>The replacement pool of Reassign\<close>

lemma assigned_iff_listed:
  "((prID, uid) \<in> set rows) = (uid \<in> set (map snd (filter (\<lambda>r. fst r = prID) rows)))"
  by force

lemma isReviewerAssignedToPR_postgres:
  "PRService_isReviewerAssignedToPR postgres db prID uid = (uid \<in> set (getPRReviewers db prID))"
  unfolding getPRReviewers_def assigned_iff_listed[symmetric]
  by (simp add: PRService_isReviewerAssignedToPR_def postgres_def
        ReviewRepository_IsReviewerAssigned_def)

lemma replacementCandidates_set:
  "set (PRService_replacementCandidates postgres db
          (sort_key UserID (filter (\<lambda>u. TeamName u = teamName \<and> IsActive u) (users db)))
          prID authorID old)
     = spec_replacement_pool db teamName authorID old (getPRReviewers db prID)"
  unfolding PRService_replacementCandidates_def spec_replacement_pool_def
  by (simp add: isReviewerAssignedToPR_postgres, blast)

lemma GetPR_reviewers:
  "PRRepository_GetPR db prID = Inr pr \<Longrightarrow> AssignedReviewers pr = getPRReviewers db prID"
  by (auto simp: PRRepository_GetPR_def split: option.splits)

text \<open>
  C5. When Reassign passes its preconditions (the PR exists and is OPEN, the old reviewer
  is assigned to it, exists and is active), the candidates it builds are exactly the
  active members of the old reviewer's team without the PR's author, the old reviewer and
  the reviewers assigned to the PR; when there is none, Reassign fails with NO_CANDIDATE
  and returns the store and the random source untouched.
\<close>

theorem reassign_pool_and_no_candidate:
  assumes pr: "PRRepository_GetPR db prID = Inr pr"
    and st: "Status pr = ''OPEN''"
    and asg: "ReviewRepository_IsReviewerAssigned db prID oldReviewerID = Inr True"
    and usr: "UserRepository_GetUser db oldReviewerID = Inr oldReviewer"
    and act: "IsActive oldReviewer"
  shows "\<exists>activeUsers.
           UserRepository_GetActiveUsersByTeam db (TeamName oldReviewer) = Inr activeUsers \<and>
           set (PRService_replacementCandidates postgres db activeUsers prID (AuthorID pr) oldReviewerID)
             = spec_replacement_pool db (TeamName oldReviewer) (AuthorID pr) oldReviewerID
                 (AssignedReviewers pr) \<and>
           (PRService_replacementCandidates postgres db activeUsers prID (AuthorID pr) oldReviewerID = []
              \<longrightarrow> PRService_ReassignReviewer postgres g db prID oldReviewerID
                    = (Inl (ServiceError ''NO_CANDIDATE'' ''no active replacement candidate in team''),
                       db, g))"
proof -
  let ?act = "sort_key UserID
                (filter (\<lambda>u. TeamName u = TeamName oldReviewer \<and> IsActive u) (users db))"
  let ?cands = "PRService_replacementCandidates postgres db ?act prID (AuthorID pr) oldReviewerID"
  have a: "UserRepository_GetActiveUsersByTeam db (TeamName oldReviewer) = Inr ?act"
    by (simp add: UserRepository_GetActiveUsersByTeam_def)
  have b: "set ?cands = spec_replacement_pool db (TeamName oldReviewer) (AuthorID pr)
                          oldReviewerID (AssignedReviewers pr)"
    using replacementCandidates_set[of db "TeamName oldReviewer" prID "AuthorID pr" oldReviewerID]
      GetPR_reviewers[OF pr] by simp
  have c: "PRService_ReassignReviewer postgres g db prID oldReviewerID
             = (Inl (ServiceError ''NO_CANDIDATE'' ''no active replacement candidate in team''), db, g)"
    if "?cands = []"
    using pr st asg usr act a that
    by (simp add: PRService_ReassignReviewer_def PRService_selectReplacementReviewer_def
          postgres_def NewServiceError_def)
  from a b c show ?thesis by blast
qed

text \<open>
  In the team of two the only active members are the author and the old reviewer: the
  pool is empty and Reassign fails with NO_CANDIDATE.
\<close>

theorem reassign_pool_and_no_candidate_witness:
  "PRRepository_GetPR pair_store ''q1''
     = Inr \<lparr>PullRequestID = ''q1'', PullRequestName = ''one'', AuthorID = ''x'',
            Status = ''OPEN'', AssignedReviewers = [''y''], CreatedAt = 1000, MergedAt = None\<rparr> \<and>
   ReviewRepository_IsReviewerAssigned pair_store ''q1'' ''y'' = Inr True \<and>
   UserRepository_GetUser pair_store ''y''
     = Inr \<lparr>UserID = ''y'', Username = ''Yo'', TeamName = ''t2'', IsActive = True\<rparr> \<and>
   spec_replacement_pool pair_store ''t2'' ''x'' ''y'' [''y''] = {} \<and>
   PRService_ReassignReviewer postgres (sconst 3) pair_store ''q1'' ''y''
     = (Inl (ServiceError ''NO_CANDIDATE'' ''no active replacement candidate in team''),
        pair_store, sconst 3)"
proof -
  let ?pr = "\<lparr>PullRequestID = ''q1'', PullRequestName = ''one'', AuthorID = ''x'',
              Status = ''OPEN'', AssignedReviewers = [''y''], CreatedAt = 1000, MergedAt = None\<rparr>"
  let ?u = "\<lparr>UserID = ''y'', Username = ''Yo'', TeamName = ''t2'', IsActive = True\<rparr>"
  have a: "PRRepository_GetPR pair_store ''q1'' = Inr ?pr"
    by (simp add: PRRepository_GetPR_def getPRReviewers_def pair_store_def)
  have b: "Status ?pr = ''OPEN''" by simp
  have c: "ReviewRepository_IsReviewerAssigned pair_store ''q1'' ''y'' = Inr True"
    by (simp add: ReviewRepository_IsReviewerAssigned_def pair_store_def)
  have d: "UserRepository_GetUser pair_store ''y'' = Inr ?u"
    by (simp add: UserRepository_GetUser_def pair_store_def)
  have e: "IsActive ?u" by simp
  have f: "spec_replacement_pool pair_store ''t2'' ''x'' ''y'' [''y''] = {}"
    by (simp add: spec_replacement_pool_def pair_store_def)
  from reassign_pool_and_no_candidate[OF a b c d e, of "sconst 3"] f
  have "PRService_ReassignReviewer postgres (sconst 3) pair_store ''q1'' ''y''
          = (Inl (ServiceError ''NO_CANDIDATE'' ''no active replacement candidate in team''),
             pair_store, sconst 3)"
    by auto
  with a c d f show ?thesis by simp
qed

subsection \<open>The initial selection\<close>

lemma length_swap [simp]: "length (swap xs i j) = length xs"
  by (simp add: swap_def)

lemma mset_swap_go: "i < length xs \<Longrightarrow> j < length xs \<Longrightarrow> mset (swap xs i j) = mset xs"
  unfolding swap_def by (simp add: mset_swap)

text \<open>The shuffle permutes its list, whatever the draws.\<close>

lemma shuffle_from_mset:
  "i < length xs \<Longrightarrow> mset (fst (shuffle_from g i xs)) = mset xs"
proof (induction i arbitrary: g xs)
  case 0
  then show ?case by simp
next
  case (Suc i)
  let ?j = "shd g mod (Suc i + 1)"
  have "?j < Suc i + 1" by simp
  with Suc.prems have j: "?j < length xs" by linarith
  have "mset (swap xs (Suc i) ?j) = mset xs"
    by (rule mset_swap_go[OF Suc.prems j])
  moreover have "i < length (swap xs (Suc i) ?j)" using Suc.prems by simp
  ultimately show ?case
    using Suc.IH[of "swap xs (Suc i) ?j" "stl g"] by (simp add: rand_Intn_def)
qed

lemma rand_Shuffle_mset: "mset (fst (rand_Shuffle g xs)) = mset xs"
proof (cases xs)
  case Nil
  then show ?thesis by (simp add: rand_Shuffle_def)
next
  case (Cons x rest)
  then have "length xs - 1 < length xs" by simp
  then show ?thesis unfolding rand_Shuffle_def by (rule shuffle_from_mset)
qed

lemma map_nth_upt_take: "n \<le> length xs \<Longrightarrow> map (\<lambda>i. xs ! i) [0..<n] = take n xs"
  by (rule nth_equalityI) simp_all

lemma distinct_ids_sorted:
  assumes "distinct (map UserID us)"
  shows "distinct (map UserID (filter Q (sort_key UserID (filter P us))))"
proof -
  have "distinct (map UserID (filter P us))" using assms by (rule distinct_map_filter)
  moreover have "mset (map UserID (sort_key UserID (filter P us))) = mset (map UserID (filter P us))"
    by simp
  ultimately have "distinct (map UserID (sort_key UserID (filter P us)))"
    by (metis mset_eq_imp_distinct_iff)
  then show ?thesis by (rule distinct_map_filter)
qed

lemma min_go_min: "min_go a b = min a b"
  by (simp add: min_go_def min_def)

lemma assignReviewers_run:
  assumes act: "userRepo_GetActiveUsersByTeam R db teamName = Inr activeUsers"
    and cands: "cands = map UserID (filter (\<lambda>user. UserID user \<noteq> authorID) activeUsers)"
  shows "PRService_assignReviewers R g db authorID teamName
           = (if cands = [] then (Inr [], g)
              else (Inr (take (min 2 (length cands)) (fst (rand_Shuffle g cands))),
                    snd (rand_Shuffle g cands)))"
proof (cases "cands = []")
  case True
  with act cands show ?thesis
    by (simp add: PRService_assignReviewers_def)
next
  case False
  obtain sh g' where sh: "rand_Shuffle g cands = (sh, g')" by (cases "rand_Shuffle g cands")
  have "mset (fst (rand_Shuffle g cands)) = mset cands" by (rule rand_Shuffle_mset)
  then have "length sh = length cands" using sh mset_eq_length by fastforce
  then have "map (\<lambda>i. sh ! i) [0..<min 2 (length cands)] = take (min 2 (length cands)) sh"
    by (intro map_nth_upt_take) simp
  with act cands[symmetric] False sh show ?thesis
    by (simp add: PRService_assignReviewers_def min_go_min Let_def)
qed

lemma swap_nth_left: "i < length xs \<Longrightarrow> j < length xs \<Longrightarrow> swap xs i j ! i = xs ! j"
  by (simp add: swap_def nth_list_update)

lemma drop_swap: "i < n \<Longrightarrow> j < n \<Longrightarrow> drop n (swap xs i j) = drop n xs"
  by (simp add: swap_def)

lemma mset_take_swap:
  assumes "i < n" "j < n" "n \<le> length xs"
  shows "mset (take n (swap xs i j)) = mset (take n xs)"
proof -
  have "take n (swap xs i j) = swap (take n xs) i j"
    using assms by (simp add: swap_def take_update_swap)
  moreover have "mset (swap (take n xs) i j) = mset (take n xs)"
    using assms by (intro mset_swap_go) simp_all
  ultimately show ?thesis by simp
qed

lemma shuffle_from_draws: "snd (shuffle_from g i xs) = sdrop i g"
  by (induction i arbitrary: g xs) (simp_all add: rand_Intn_def)

lemma shuffle_from_reaches:
  "i < length xs \<Longrightarrow> length zs = length xs \<Longrightarrow>
   mset (take (Suc i) zs) = mset (take (Suc i) xs) \<Longrightarrow>
   drop (Suc i) zs = drop (Suc i) xs \<Longrightarrow>
   \<exists>g. fst (shuffle_from g i xs) = zs"
proof (induction i arbitrary: xs)
  case 0
  from 0 have lx: "0 < length xs" and lz: "0 < length zs" by simp_all
  have "take (Suc 0) zs = [zs ! 0]" using lz by (simp add: take_Suc_conv_app_nth)
  moreover have "take (Suc 0) xs = [xs ! 0]" using lx by (simp add: take_Suc_conv_app_nth)
  ultimately have "take (Suc 0) zs = take (Suc 0) xs" using "0.prems"(3) by simp
  with "0.prems"(4) have "take (Suc 0) zs @ drop (Suc 0) zs = take (Suc 0) xs @ drop (Suc 0) xs"
    by simp
  then have "zs = xs" by (simp only: append_take_drop_id)
  then show ?case by simp
next
  case (Suc i)
  let ?n = "Suc (Suc i)"
  from Suc.prems have n: "?n \<le> length xs" and nz: "?n \<le> length zs" by simp_all
  have "zs ! Suc i \<in> set (take ?n zs)"
    using nz by (auto simp: in_set_conv_nth intro!: exI[of _ "Suc i"])
  then have "zs ! Suc i \<in> set (take ?n xs)"
    using mset_eq_setD[OF Suc.prems(3)] by simp
  then obtain j where j: "j < ?n" and xj: "xs ! j = zs ! Suc i"
    using n by (auto simp: in_set_conv_nth)
  define xs' where "xs' = swap xs (Suc i) j"
  have len: "length xs' = length xs" by (simp add: xs'_def)
  from j n have jl: "j < length xs" by simp
  have at: "xs' ! Suc i = zs ! Suc i"
    unfolding xs'_def using swap_nth_left[OF Suc.prems(1) jl] xj by simp
  have dr: "drop ?n xs' = drop ?n zs"
    unfolding xs'_def using drop_swap[of "Suc i" ?n j xs] j Suc.prems(4) by simp
  have "drop (Suc i) xs' = xs' ! Suc i # drop ?n xs'"
    using Suc.prems(1) len by (simp add: Cons_nth_drop_Suc)
  moreover have "drop (Suc i) zs = zs ! Suc i # drop ?n zs"
    using Suc.prems(1,2) by (simp add: Cons_nth_drop_Suc)
  ultimately have d': "drop (Suc i) zs = drop (Suc i) xs'" using at dr by simp
  have tk: "mset (take ?n xs') = mset (take ?n zs)"
    unfolding xs'_def using mset_take_swap[of "Suc i" ?n j xs] j n Suc.prems(3) by simp
  have "take ?n xs' = take (Suc i) xs' @ [xs' ! Suc i]"
    using Suc.prems(1) len by (simp add: take_Suc_conv_app_nth)
  moreover have "take ?n zs = take (Suc i) zs @ [zs ! Suc i]"
    using Suc.prems(1,2) by (simp add: take_Suc_conv_app_nth)
  ultimately have t': "mset (take (Suc i) zs) = mset (take (Suc i) xs')"
    using tk at by simp
  have "i < length xs'" using Suc.prems(1) len by simp
  from Suc.IH[OF this _ t' d'] Suc.prems(2) len
  obtain g' where g': "fst (shuffle_from g' i xs') = zs" by auto
  have "j mod (Suc i + 1) = j" using j by simp
  then have "fst (shuffle_from (j ## g') (Suc i) xs) = zs"
    using g' by (simp add: rand_Intn_def xs'_def)
  then show ?case by blast
qed

text \<open>Every permutation of the list is the outcome of the shuffle for some draws.\<close>

lemma rand_Shuffle_reaches:
  assumes "mset zs = mset xs"
  shows "\<exists>g. fst (rand_Shuffle g xs) = zs"
proof (cases xs)
  case Nil
  with assms show ?thesis by (simp add: rand_Shuffle_def)
next
  case (Cons x rest)
  from assms have l: "length zs = length xs" by (rule mset_eq_length)
  from Cons have i: "length xs - 1 < length xs" and s: "Suc (length xs - 1) = length xs"
    by simp_all
  have "\<exists>g. fst (shuffle_from g (length xs - 1) xs) = zs"
    by (rule shuffle_from_reaches[OF i l]) (simp_all add: s l assms)
  then show ?thesis by (simp add: rand_Shuffle_def)
qed

lemma rand_Shuffle_draws: "snd (rand_Shuffle g xs) = sdrop (length xs - 1) g"
  by (simp add: rand_Shuffle_def shuffle_from_draws)

text \<open>Every duplicate-free list of \<open>k\<close> candidates is the prefix of some shuffle.\<close>

lemma rand_Shuffle_prefix_reaches:
  assumes dx: "distinct xs" and dy: "distinct ys" and sub: "set ys \<subseteq> set xs"
  shows "\<exists>g. take (length ys) (fst (rand_Shuffle g xs)) = ys"
proof -
  define zs where "zs = ys @ filter (\<lambda>x. x \<notin> set ys) xs"
  have "distinct zs" using dx dy by (auto simp: zs_def)
  moreover have "set zs = set xs" using sub by (auto simp: zs_def)
  ultimately have "mset zs = mset xs" using dx by (simp add: set_eq_iff_mset_eq_distinct)
  from rand_Shuffle_reaches[OF this] obtain g where "fst (rand_Shuffle g xs) = zs" ..
  then have "take (length ys) (fst (rand_Shuffle g xs)) = ys" by (simp add: zs_def)
  then show ?thesis ..
qed

text \<open>
  C3. The initial selection never fails on the PostgreSQL store. Its candidates are the
  ids of the team's active members, in id order, without the author: as a set, the
  team's active members minus the author, each once (by the primary key of users). With
  no candidate the result is empty and no draw is consumed. Otherwise the candidates are
  shuffled by the draws (the outcome is a permutation of them, \<open>n - 1\<close> draws are
  consumed for \<open>n\<close> candidates) and the result is the prefix of length min(2, number of
  candidates) of the shuffled list: it has that length, at most 2, no duplicates, not the
  author, and only members of the pool. The draws decide the result: every duplicate-free
  list of that length over the pool is the result for some draws.
\<close>

theorem assignReviewers_selection:
  assumes pk: "distinct (map UserID (users db))"
  shows "\<exists>activeUsers candidates reviewerIDs g'.
           UserRepository_GetActiveUsersByTeam db teamName = Inr activeUsers \<and>
           candidates = map UserID (filter (\<lambda>user. UserID user \<noteq> authorID) activeUsers) \<and>
           set candidates = spec_initial_pool db teamName authorID \<and>
           distinct candidates \<and>
           PRService_assignReviewers postgres g db authorID teamName = (Inr reviewerIDs, g') \<and>
           (candidates = [] \<longrightarrow> reviewerIDs = [] \<and> g' = g) \<and>
           mset (fst (rand_Shuffle g candidates)) = mset candidates \<and>
           reviewerIDs = take (min 2 (length candidates)) (fst (rand_Shuffle g candidates)) \<and>
           g' = sdrop (length candidates - 1) g \<and>
           length reviewerIDs = min 2 (card (spec_initial_pool db teamName authorID)) \<and>
           length reviewerIDs \<le> 2 \<and>
           distinct reviewerIDs \<and>
           authorID \<notin> set reviewerIDs \<and>
           set reviewerIDs \<subseteq> spec_initial_pool db teamName authorID \<and>
           (\<forall>ys. distinct ys \<and> set ys \<subseteq> spec_initial_pool db teamName authorID \<and>
                 length ys = min 2 (card (spec_initial_pool db teamName authorID)) \<longrightarrow>
                 (\<exists>g0. fst (PRService_assignReviewers postgres g0 db authorID teamName) = Inr ys))"
proof -
  define act where
    "act = sort_key UserID (filter (\<lambda>u. TeamName u = teamName \<and> IsActive u) (users db))"
  define cands where "cands = map UserID (filter (\<lambda>user. UserID user \<noteq> authorID) act)"
  define sh where "sh = fst (rand_Shuffle g cands)"
  define ids where "ids = take (min 2 (length cands)) sh"
  have pool: "set cands = spec_initial_pool db teamName authorID"
    unfolding cands_def act_def by (auto simp: spec_initial_pool_def)
  have dc: "distinct cands"
    unfolding cands_def act_def using pk by (rule distinct_ids_sorted)
  have ms: "mset sh = mset cands" unfolding sh_def by (rule rand_Shuffle_mset)
  have len: "length sh = length cands" using ms by (rule mset_eq_length)
  have set_sh: "set sh = set cands" using ms by (rule mset_eq_setD)
  have dsh: "distinct sh" using mset_eq_imp_distinct_iff[OF ms] dc by simp
  have card: "length cands = card (spec_initial_pool db teamName authorID)"
    using distinct_card[OF dc] pool by simp
  have ga: "UserRepository_GetActiveUsersByTeam db teamName = Inr act"
    by (simp add: act_def UserRepository_GetActiveUsersByTeam_def)
  then have "userRepo_GetActiveUsersByTeam postgres db teamName = Inr act"
    by (simp add: postgres_def)
  note run = assignReviewers_run[OF this cands_def]
  have run_g: "PRService_assignReviewers postgres g db authorID teamName
               = (if cands = [] then (Inr [], g) else (Inr ids, snd (rand_Shuffle g cands)))"
    using run[of g] by (simp add: ids_def sh_def)
  have l1: "length ids = min 2 (length cands)" using len by (simp add: ids_def)
  have sub: "set ids \<subseteq> set cands"
    using set_take_subset[of "min 2 (length cands)" sh] set_sh by (simp add: ids_def)
  have na: "authorID \<notin> set cands" by (auto simp: cands_def)
  have empty: "ids = []" if "cands = []" using that len by (simp add: ids_def)
  let ?g' = "if cands = [] then g else snd (rand_Shuffle g cands)"
  have r: "PRService_assignReviewers postgres g db authorID teamName = (Inr ids, ?g')"
    using run_g empty by simp
  have c4: "cands = [] \<longrightarrow> ids = [] \<and> ?g' = g" using empty by simp
  have c5: "mset (fst (rand_Shuffle g cands)) = mset cands" using ms by (simp add: sh_def)
  have c6: "ids = take (min 2 (length cands)) (fst (rand_Shuffle g cands))"
    by (simp add: ids_def sh_def)
  have c6': "?g' = sdrop (length cands - 1) g"
    by (simp add: rand_Shuffle_draws)
  have c7: "length ids = min 2 (card (spec_initial_pool db teamName authorID))"
    using l1 card by simp
  have c8: "length ids \<le> 2" using l1 by simp
  have c9: "distinct ids" unfolding ids_def using dsh by (rule distinct_take)
  have c10: "authorID \<notin> set ids" using sub na by blast
  have c11: "set ids \<subseteq> spec_initial_pool db teamName authorID" using sub pool by simp
  have c12: "\<exists>g0. fst (PRService_assignReviewers postgres g0 db authorID teamName) = Inr ys"
    if ys: "distinct ys \<and> set ys \<subseteq> spec_initial_pool db teamName authorID \<and>
            length ys = min 2 (card (spec_initial_pool db teamName authorID))" for ys
  proof -
    from ys have dy: "distinct ys" and sy: "set ys \<subseteq> set cands"
      and ly: "length ys = min 2 (length cands)" using pool card by simp_all
    from rand_Shuffle_prefix_reaches[OF dc dy sy] obtain g0 where
      g0: "take (length ys) (fst (rand_Shuffle g0 cands)) = ys" ..
    have "fst (PRService_assignReviewers postgres g0 db authorID teamName) = Inr ys"
    proof (cases "cands = []")
      case True
      with ly have "ys = []" by simp
      with True run[of g0] show ?thesis by simp
    next
      case False
      with run[of g0] g0 ly show ?thesis by simp
    qed
    then show ?thesis ..
  qed
  have c12': "\<forall>ys. distinct ys \<and> set ys \<subseteq> spec_initial_pool db teamName authorID \<and>
                 length ys = min 2 (card (spec_initial_pool db teamName authorID)) \<longrightarrow>
                 (\<exists>g0. fst (PRService_assignReviewers postgres g0 db authorID teamName) = Inr ys)"
    using c12 by blast
  show ?thesis
    apply (rule exI[of _ act], rule exI[of _ cands], rule exI[of _ ids], rule exI[of _ ?g'])
    apply (intro conjI)
                  apply (rule ga)
                 apply (rule cands_def)
                apply (rule pool)
               apply (rule dc)
              apply (rule r)
             apply (rule c4)
            apply (rule c5)
           apply (rule c6)
          apply (rule c6')
         apply (rule c7)
        apply (rule c8)
       apply (rule c9)
      apply (rule c10)
     apply (rule c11)
    apply (rule c12')
    done
qed

text \<open>
  Ann's team in the example store: the candidates are Bob, Cy and Dan. With every draw 0
  the shuffle gives Cy, Dan, Bob and the reviewers are Cy and Dan; with the first draw 2
  and then 0 it gives Cy, Bob, Dan and the reviewers are Cy and Bob.
\<close>

lemma demo_active_t1:
  "UserRepository_GetActiveUsersByTeam demo_store ''t1''
     = Inr [\<lparr>UserID = ''a'', Username = ''Ann'', TeamName = ''t1'', IsActive = True\<rparr>,
            \<lparr>UserID = ''b'', Username = ''Bob'', TeamName = ''t1'', IsActive = True\<rparr>,
            \<lparr>UserID = ''c'', Username = ''Cy'', TeamName = ''t1'', IsActive = True\<rparr>,
            \<lparr>UserID = ''d'', Username = ''Dan'', TeamName = ''t1'', IsActive = True\<rparr>]"
  by (simp add: UserRepository_GetActiveUsersByTeam_def demo_store_def)

lemma shuffle_bcd:
  "rand_Shuffle (sconst 0) [''b'', ''c'', ''d''] = ([''c'', ''d'', ''b''], sconst 0)"
proof -
  have "shuffle_from (sconst 0) (Suc (Suc 0)) [''b'', ''c'', ''d'']
          = ([''c'', ''d'', ''b''], sconst 0)"
    by (simp add: rand_Intn_def swap_def)
  then show ?thesis by (simp add: rand_Shuffle_def numeral_2_eq_2)
qed

lemma shuffle_bcd_2:
  "rand_Shuffle (2 ## sconst 0) [''b'', ''c'', ''d''] = ([''c'', ''b'', ''d''], sconst 0)"
proof -
  have "shuffle_from (Suc (Suc 0) ## sconst 0) (Suc (Suc 0)) [''b'', ''c'', ''d'']
          = ([''c'', ''b'', ''d''], sconst 0)"
    by (simp add: rand_Intn_def swap_def)
  then show ?thesis by (simp add: rand_Shuffle_def numeral_2_eq_2)
qed

lemma demo_assignReviewers:
  "PRService_assignReviewers postgres (sconst 0) demo_store ''a'' ''t1''
     = (Inr [''c'', ''d''], sconst 0)"
proof -
  have "userRepo_GetActiveUsersByTeam postgres demo_store ''t1''
          = UserRepository_GetActiveUsersByTeam demo_store ''t1''"
    by (simp add: postgres_def)
  from assignReviewers_run[OF this[unfolded demo_active_t1] refl, of "sconst 0" "''a''"]
  show ?thesis by (simp add: shuffle_bcd)
qed

text \<open>
  The selection of the example, against the pool the specification words: two draw
  sequences with different results, and the result Dan, Bob, which some draws give.
\<close>

theorem assignReviewers_selection_witness:
  "distinct (map UserID (users demo_store)) \<and>
   spec_initial_pool demo_store ''t1'' ''a'' = {''b'', ''c'', ''d''} \<and>
   PRService_assignReviewers postgres (sconst 0) demo_store ''a'' ''t1''
     = (Inr [''c'', ''d''], sconst 0) \<and>
   [''c'', ''d''] = take (min 2 (length [''b'', ''c'', ''d'']))
                      (fst (rand_Shuffle (sconst 0) [''b'', ''c'', ''d''])) \<and>
   PRService_assignReviewers postgres (2 ## sconst 0) demo_store ''a'' ''t1''
     = (Inr [''c'', ''b''], sconst 0) \<and>
   (\<exists>g0. fst (PRService_assignReviewers postgres g0 demo_store ''a'' ''t1'') = Inr [''d'', ''b''])"
proof -
  have a: "distinct (map UserID (users demo_store))" by (simp add: demo_store_def)
  have b: "spec_initial_pool demo_store ''t1'' ''a'' = {''b'', ''c'', ''d''}"
    by (auto simp: spec_initial_pool_def demo_store_def)
  have cd: "card {''b'', ''c'', ''d''} = 3" by simp
  have run: "\<exists>ids. PRService_assignReviewers postgres g demo_store ''a'' ''t1''
                 = (Inr ids, sdrop 2 g) \<and>
               ids = take 2 (fst (rand_Shuffle g [''b'', ''c'', ''d'']))" for g
  proof -
    from assignReviewers_selection[OF a, of "''t1''" "''a''" g]
    obtain activeUsers candidates reviewerIDs g' where
      1: "UserRepository_GetActiveUsersByTeam demo_store ''t1'' = Inr activeUsers"
      and 2: "candidates = map UserID (filter (\<lambda>user. UserID user \<noteq> ''a'') activeUsers)"
      and 3: "PRService_assignReviewers postgres g demo_store ''a'' ''t1'' = (Inr reviewerIDs, g')"
      and 4: "reviewerIDs = take (min 2 (length candidates)) (fst (rand_Shuffle g candidates))"
      and 5: "g' = sdrop (length candidates - 1) g"
      by blast
    from 1 have "activeUsers =
             [\<lparr>UserID = ''a'', Username = ''Ann'', TeamName = ''t1'', IsActive = True\<rparr>,
              \<lparr>UserID = ''b'', Username = ''Bob'', TeamName = ''t1'', IsActive = True\<rparr>,
              \<lparr>UserID = ''c'', Username = ''Cy'', TeamName = ''t1'', IsActive = True\<rparr>,
              \<lparr>UserID = ''d'', Username = ''Dan'', TeamName = ''t1'', IsActive = True\<rparr>]"
      by (simp add: demo_active_t1)
    with 2 have "candidates = [''b'', ''c'', ''d'']" by simp
    with 3 4 5 show ?thesis by (simp add: numeral_2_eq_2)
  qed
  from run[of "sconst 0"]
  have c: "PRService_assignReviewers postgres (sconst 0) demo_store ''a'' ''t1''
             = (Inr [''c'', ''d''], sconst 0)"
    by (simp add: shuffle_bcd numeral_2_eq_2)
  have d: "[''c'', ''d''] = take (min 2 (length [''b'', ''c'', ''d'']))
                      (fst (rand_Shuffle (sconst 0) [''b'', ''c'', ''d'']))"
    by (simp add: shuffle_bcd)
  have sd: "sdrop 2 (2 ## sconst 0) = sconst (0::nat)" by (simp add: numeral_2_eq_2)
  from run[of "2 ## sconst 0"]
  have e: "PRService_assignReviewers postgres (2 ## sconst 0) demo_store ''a'' ''t1''
             = (Inr [''c'', ''b''], sconst 0)"
    by (simp add: shuffle_bcd_2 sd)
  from assignReviewers_selection[OF a, of "''t1''" "''a''" "sconst 0"]
  have "\<And>ys. distinct ys \<Longrightarrow> set ys \<subseteq> spec_initial_pool demo_store ''t1'' ''a'' \<Longrightarrow>
              length ys = min 2 (card (spec_initial_pool demo_store ''t1'' ''a'')) \<Longrightarrow>
              \<exists>g0. fst (PRService_assignReviewers postgres g0 demo_store ''a'' ''t1'') = Inr ys"
    by blast
  from this[of "[''d'', ''b'']"] b cd
  have f: "\<exists>g0. fst (PRService_assignReviewers postgres g0 demo_store ''a'' ''t1'') = Inr [''d'', ''b'']"
    by simp
  from a b c d e f show ?thesis by blast
qed

subsection \<open>CreatePR and the author\<close>














subsection \<open>CreatePR when the reviewer rows cannot be written\<close>

text \<open>
  C8. For any repositories: when the request passes its preconditions, the PR row has
  been inserted (giving the store \<open>db1\<close>) and the write of the reviewer rows then
  fails, CreatePR returns the PR, with the selected reviewers in it, and no error; the
  store it leaves is \<open>db1\<close>: the PR row is not taken back.
\<close>

theorem create_pr_keeps_pr_when_assignment_fails:
  assumes "prRepo_PRExists R db prID = Inr False"
    and "userRepo_GetUser R db authorID = Inr author"
    and "IsActive author"
    and "PRService_assignReviewers R g db authorID (TeamName author) = (Inr reviewerIDs, g')"
    and "prRepo_CreatePR R db
           \<lparr>PullRequestID = prID, PullRequestName = prName, AuthorID = authorID,
            Status = ''OPEN'', AssignedReviewers = reviewerIDs, CreatedAt = now,
            MergedAt = None\<rparr> = Inr db1"
    and "reviewRepo_AssignReviewers R db1 prID reviewerIDs = Inl err"
  shows "PRService_CreatePR R g db prID prName authorID now
           = (Inr \<lparr>PullRequestID = prID, PullRequestName = prName, AuthorID = authorID,
                   Status = ''OPEN'', AssignedReviewers = reviewerIDs, CreatedAt = now,
                   MergedAt = None\<rparr>, db1, g')"
  using assms by (simp add: PRService_CreatePR_def Let_def)

text \<open>
  On the example store with the reviewer-row write down: the PR \<open>p3\<close> comes back with
  the reviewers Cy and Dan, its row is in the store, and no reviewer row was written.
\<close>

theorem create_pr_keeps_pr_when_assignment_fails_witness:
  "PRService_CreatePR postgres_assign_unavailable (sconst 0) demo_store ''p3'' ''three'' ''a'' 9000
     = (Inr \<lparr>PullRequestID = ''p3'', PullRequestName = ''three'', AuthorID = ''a'',
             Status = ''OPEN'', AssignedReviewers = [''c'', ''d''], CreatedAt = 9000,
             MergedAt = None\<rparr>,
        demo_store\<lparr>pull_requests := pull_requests demo_store @
          [\<lparr>pull_request_id = ''p3'', pull_request_name = ''three'', author_id = ''a'',
            status = ''OPEN'', created_at = 9000, merged_at = None\<rparr>]\<rparr>,
        sconst 0) \<and>
   getPRReviewers
     (demo_store\<lparr>pull_requests := pull_requests demo_store @
        [\<lparr>pull_request_id = ''p3'', pull_request_name = ''three'', author_id = ''a'',
          status = ''OPEN'', created_at = 9000, merged_at = None\<rparr>]\<rparr>) ''p3'' = []"
proof -
  let ?R = postgres_assign_unavailable
  let ?a = "\<lparr>UserID = ''a'', Username = ''Ann'', TeamName = ''t1'', IsActive = True\<rparr>"
  let ?db1 = "demo_store\<lparr>pull_requests := pull_requests demo_store @
          [\<lparr>pull_request_id = ''p3'', pull_request_name = ''three'', author_id = ''a'',
            status = ''OPEN'', created_at = 9000, merged_at = None\<rparr>]\<rparr>"
  have 1: "prRepo_PRExists ?R demo_store ''p3'' = Inr False"
    by (simp add: postgres_assign_unavailable_def postgres_def PRRepository_PRExists_def
          pg_text_ok_def demo_store_def)
  have 2: "userRepo_GetUser ?R demo_store ''a'' = Inr ?a"
    by (simp add: postgres_assign_unavailable_def postgres_def UserRepository_GetUser_def
          demo_store_def)
  have 3: "IsActive ?a" by simp
  have "userRepo_GetActiveUsersByTeam ?R demo_store ''t1''
          = UserRepository_GetActiveUsersByTeam demo_store ''t1''"
    by (simp add: postgres_assign_unavailable_def postgres_def)
  from assignReviewers_run[OF this[unfolded demo_active_t1] refl, of "sconst 0" "''a''"]
  have "PRService_assignReviewers ?R (sconst 0) demo_store ''a'' ''t1''
          = (Inr [''c'', ''d''], sconst 0)"
    by (simp add: shuffle_bcd)
  then have 4: "PRService_assignReviewers ?R (sconst 0) demo_store ''a'' (TeamName ?a)
                  = (Inr [''c'', ''d''], sconst 0)" by simp
  have 5: "prRepo_CreatePR ?R demo_store
             \<lparr>PullRequestID = ''p3'', PullRequestName = ''three'', AuthorID = ''a'',
              Status = ''OPEN'', AssignedReviewers = [''c'', ''d''], CreatedAt = 9000,
              MergedAt = None\<rparr> = Inr ?db1"
    by (simp add: postgres_assign_unavailable_def postgres_def PRRepository_CreatePR_def
          pg_text_ok_def timestamptz_def demo_store_def)
  have 6: "reviewRepo_AssignReviewers ?R ?db1 ''p3'' [''c'', ''d'']
             = Inl (wrap ''failed to begin transaction: '' (PlainError ''pq: connection refused''))"
    by (simp add: postgres_assign_unavailable_def)
  have 7: "getPRReviewers ?db1 ''p3'' = []"
    by (simp add: getPRReviewers_def demo_store_def)
  from create_pr_keeps_pr_when_assignment_fails[OF 1 2 3 4 5 6] 7 show ?thesis by simp
qed

subsection \<open>Bulk deactivation\<close>

lemma UpdateUser_deactivate_resolves:
  assumes f: "find (\<lambda>u. UserID u = uid) (users db) = Some user"
    and up: "UserRepository_UpdateUser db (user\<lparr>IsActive := False\<rparr>) = Inr db'"
  shows "resolves_in_team db' teamName x = resolves_in_team db teamName x"
proof -
  from find_Some_key[OF f] have k: "UserID user = uid" by simp
  define upd :: "User \<Rightarrow> User" where "upd = (\<lambda>u. if UserID u = uid
                                then u\<lparr>Username := Username user, TeamName := TeamName user,
                                       IsActive := False\<rparr>
                                else u)"
  from up k have users': "users db' = map upd (users db)"
    by (auto simp: UserRepository_UpdateUser_def upd_def split: if_splits)
  have keep: "\<And>u. UserID (upd u) = UserID u" by (simp add: upd_def)
  have fm: "find (\<lambda>u. UserID u = x) (users db')
              = map_option upd (find (\<lambda>u. UserID u = x) (users db))"
    unfolding users' by (rule find_map_keeps_key[where key = UserID, OF keep])
  show ?thesis
  proof (cases "find (\<lambda>u. UserID u = x) (users db)")
    case None
    with fm show ?thesis by (simp add: resolves_in_team_def)
  next
    case (Some y)
    from find_Some_key[OF Some] have ky: "UserID y = x" by simp
    have "TeamName (upd y) = TeamName y"
    proof (cases "x = uid")
      case True
      with Some f have "y = user" by simp
      then show ?thesis by (simp add: upd_def)
    next
      case False
      with ky show ?thesis by (simp add: upd_def)
    qed
    with fm Some show ?thesis by (simp add: resolves_in_team_def)
  qed
qed

text \<open>The first loop collects, in request order, the ids that resolve in the team.\<close>

lemma deactivateUsers_result:
  "deactivateUsers postgres teamName db userIDs acc = (Inr deactivated, db1) \<Longrightarrow>
     deactivated = acc @ filter (resolves_in_team db teamName) userIDs"
proof (induction userIDs arbitrary: db acc)
  case Nil
  then show ?case by simp
next
  case (Cons uid rest)
  show ?case
  proof (cases "find (\<lambda>u. UserID u = uid) (users db)")
    case None
    then have "deactivateUsers postgres teamName db (uid # rest) acc
                 = deactivateUsers postgres teamName db rest acc"
      by (simp add: postgres_def UserRepository_GetUser_def)
    with Cons.prems Cons.IH[of db acc] None show ?thesis
      by (simp add: resolves_in_team_def)
  next
    case (Some user)
    then have gu: "userRepo_GetUser postgres db uid = Inr user"
      by (simp add: postgres_def UserRepository_GetUser_def)
    show ?thesis
    proof (cases "TeamName user = teamName")
      case False
      with gu have "deactivateUsers postgres teamName db (uid # rest) acc
                      = deactivateUsers postgres teamName db rest acc" by simp
      with Cons.prems Cons.IH[of db acc] Some False show ?thesis
        by (simp add: resolves_in_team_def)
    next
      case True
      show ?thesis
      proof (cases "UserRepository_UpdateUser db (user\<lparr>IsActive := False\<rparr>)")
        case (Inl err)
        with gu True Cons.prems show ?thesis by (simp add: postgres_def)
      next
        case (Inr db2)
        with gu True have "deactivateUsers postgres teamName db (uid # rest) acc
                             = deactivateUsers postgres teamName db2 rest (acc @ [uid])"
          by (simp add: postgres_def)
        with Cons.prems Cons.IH[of db2 "acc @ [uid]"]
        have "deactivated = (acc @ [uid]) @ filter (resolves_in_team db2 teamName) rest" by simp
        moreover have "resolves_in_team db2 teamName = resolves_in_team db teamName"
          using UpdateUser_deactivate_resolves[OF Some Inr] by (intro ext)
        moreover have "resolves_in_team db teamName uid"
          using Some True by (simp add: resolves_in_team_def)
        ultimately show ?thesis by simp
      qed
    qed
  qed
qed

text \<open>
  C10. When a bulk deactivation on the PostgreSQL store succeeds, TotalProcessed is the
  length of DeactivatedUsers, ReassignedCount is the length of ReassignedPRs, and
  DeactivatedUsers is the requested ids, in request order and with their repetitions,
  that resolve (in the store the call started from) to a user of the named team.
\<close>

theorem bulk_deactivate_response_consistent:
  assumes "UserService_BulkDeactivateUsers postgres db teamName userIDs = (Inr resp, db')"
  shows "TotalProcessed resp = length (DeactivatedUsers resp) \<and>
         ReassignedCount resp = length (ReassignedPRs resp) \<and>
         DeactivatedUsers resp = filter (resolves_in_team db teamName) userIDs"
proof -
  from assms obtain deactivated db1 reassigned db2 where
    d: "deactivateUsers postgres teamName db userIDs [] = (Inr deactivated, db1)"
    and c: "cascadeReassign postgres teamName db1 deactivated [] = (reassigned, db2)"
    and r: "resp = \<lparr>DeactivatedUsers = deactivated, ReassignedPRs = reassigned,
                    TotalProcessed = length deactivated, ReassignedCount = length reassigned\<rparr>"
    by (auto simp: UserService_BulkDeactivateUsers_def split: sum.splits if_splits prod.splits)
  from deactivateUsers_result[OF d] r show ?thesis by simp
qed

text \<open>
  The example: the request names \<open>ghost\<close> (no such user) and Bob. Bob is deactivated, and
  on his open PR \<open>p1\<close> he is replaced by Cy; the merged \<open>p2\<close> is left alone.
\<close>

lemma demo_deactivate:
  "deactivateUsers postgres ''t1'' demo_store [''ghost'', ''b''] []
     = (Inr [''b''], demo_store_deactivated)"
  by (simp add: postgres_def UserRepository_GetUser_def UserRepository_UpdateUser_def
        demo_store_def demo_store_deactivated_def)

lemma demo_open_prs:
  "UserService_getOpenPRsWithReviewer postgres demo_store_deactivated ''b''
     = Inr [\<lparr>PullRequestID = ''p1'', PullRequestName = ''one'', AuthorID = ''a'',
             Status = ''OPEN'', AssignedReviewers = [''b''], CreatedAt = 1000, MergedAt = None\<rparr>]"
  by (simp add: UserService_getOpenPRsWithReviewer_def postgres_def
        PRRepository_GetPRsByReviewer_def PRRepository_GetPR_def getPRReviewers_def
        List.map_filter_simps demo_store_deactivated_def)

lemma demo_cascade_p1:
  "UserService_reassignReviewerInPR postgres demo_store_deactivated ''p1'' ''b'' ''t1''
     = (Inr \<lparr>PRID = ''p1'', OldReviewers = [''b''], NewReviewers = [''c'']\<rparr>,
        demo_store_after_bulk)"
  by (simp add: UserService_reassignReviewerInPR_def cascadeCandidates_def postgres_defs
        demo_store_deactivated_def demo_store_after_bulk_def Let_def)

lemma demo_bulk_deactivate:
  "UserService_BulkDeactivateUsers postgres demo_store ''t1'' [''ghost'', ''b'']
     = (Inr demo_bulk_response, demo_store_after_bulk)"
proof -
  have "teamRepo_TeamExists postgres demo_store ''t1'' = Inr True"
    by (simp add: postgres_def TeamRepository_TeamExists_def pg_text_ok_def demo_store_def)
  moreover have "cascadeReassign postgres ''t1'' demo_store_deactivated [''b''] []
                   = ([\<lparr>PRID = ''p1'', OldReviewers = [''b''], NewReviewers = [''c'']\<rparr>],
                      demo_store_after_bulk)"
    by (simp add: demo_open_prs demo_cascade_p1)
  ultimately show ?thesis
    by (simp add: UserService_BulkDeactivateUsers_def demo_deactivate demo_bulk_response_def
          del: deactivateUsers.simps cascadeReassign.simps)
qed

text \<open>The response of the example is consistent, and \<open>ghost\<close> is left out of it.\<close>

theorem bulk_deactivate_response_consistent_witness:
  "UserService_BulkDeactivateUsers postgres demo_store ''t1'' [''ghost'', ''b'']
     = (Inr demo_bulk_response, demo_store_after_bulk) \<and>
   (TotalProcessed demo_bulk_response = length (DeactivatedUsers demo_bulk_response) \<and>
    ReassignedCount demo_bulk_response = length (ReassignedPRs demo_bulk_response) \<and>
    DeactivatedUsers demo_bulk_response
      = filter (resolves_in_team demo_store ''t1'') [''ghost'', ''b''])"
  by (rule conjI[OF demo_bulk_deactivate
        bulk_deactivate_response_consistent[OF demo_bulk_deactivate]])

subsection \<open>The cascade's replacement\<close>











end
